theory Spec2Isabelle
  imports Main
begin

section \<open>The durable store (chat/models.py)\<close>

text \<open>
  The Django models are rows of tables; a table is the list of its rows. Foreign keys are
  the primary key of the row they point to. The timestamp columns that Django fills by
  itself (\<open>created_at\<close>, \<open>updated_at\<close>, \<open>joined_at\<close>) are read by no operation below and
  are left out, except \<open>Message.created_at\<close>, which the chat broadcast carries.
  Times are microseconds (the resolution of a Python \<open>datetime\<close>).
  \<open>unique_together\<close> makes (user, lobby) a key of the membership table and (lobby, user) a
  key of the ban table; a row is identified by its key.
\<close>

type_synonym time = int

text \<open>Text typed by a client is a sequence of Unicode code points, as a Python \<open>str\<close> is.\<close>

type_synonym pystr = "nat list"

record user =
  u_id :: int
  u_username :: string
  u_is_premium :: bool

record lobby =
  l_id :: int
  l_name :: string
  l_owner :: int
  l_is_public :: bool
  l_status :: string
  l_max_participants :: nat

record lobby_membership =
  m_user :: int
  m_lobby :: int
  m_role :: string

record lobby_ban =
  b_lobby :: int
  b_user :: int
  b_reason :: string
  b_banned_by :: "int option"

record message =
  msg_id :: int
  msg_lobby :: int
  msg_sender :: int
  msg_content :: pystr
  msg_created_at :: time
  msg_is_deleted :: bool

record lobby_event =
  e_lobby :: int
  e_event_type :: string
  e_actor :: "int option"
  e_target :: "int option"
  e_description :: string
  e_metadata :: "(string \<times> string) list"

text \<open>\<open>message_seq\<close> is the auto-increment counter of the message table.\<close>

record db =
  users :: "user list"
  lobbies :: "lobby list"
  memberships :: "lobby_membership list"
  bans :: "lobby_ban list"
  messages :: "message list"
  events :: "lobby_event list"
  message_seq :: int

text \<open>\<open>QuerySet.exists()\<close> and \<open>QuerySet.count()\<close>.\<close>

definition exists_qs :: "'a list \<Rightarrow> bool" where
  "exists_qs rows = (rows \<noteq> [])"

definition count_qs :: "'a list \<Rightarrow> nat" where
  "count_qs rows = length rows"

text \<open>The reverse relations \<open>lobby.memberships\<close> and \<open>lobby.bans\<close>.\<close>

definition lobby_memberships :: "db \<Rightarrow> lobby \<Rightarrow> lobby_membership list" where
  "lobby_memberships d l = filter (\<lambda>m. m_lobby m = l_id l) (memberships d)"

definition lobby_bans :: "db \<Rightarrow> lobby \<Rightarrow> lobby_ban list" where
  "lobby_bans d l = filter (\<lambda>b. b_lobby b = l_id l) (bans d)"

definition current_participants_count :: "db \<Rightarrow> lobby \<Rightarrow> nat" where
  "current_participants_count d l = count_qs (lobby_memberships d l)"

definition is_full :: "db \<Rightarrow> lobby \<Rightarrow> bool" where
  "is_full d l = (current_participants_count d l \<ge> l_max_participants l)"

text \<open>\<open>Lobby.can_join\<close>: four checks in the order of the source, each returning at once.\<close>

definition can_join :: "db \<Rightarrow> lobby \<Rightarrow> user \<Rightarrow> bool \<times> string" where
  "can_join d l u =
     (if l_status l \<noteq> ''open'' then (False, ''Lobby is not open'')
      else if is_full d l then (False, ''Lobby is full'')
      else if exists_qs (filter (\<lambda>b. b_user b = u_id u) (lobby_bans d l))
        then (False, ''You are banned from this lobby'')
      else if exists_qs (filter (\<lambda>m. m_user m = u_id u) (lobby_memberships d l))
        then (False, ''Already in lobby'')
      else (True, ''Can join''))"

text \<open>The relations of the specification's data model, read off the tables.\<close>

definition Banned :: "db \<Rightarrow> int \<Rightarrow> int \<Rightarrow> bool" where
  "Banned d lid uid = (\<exists>b \<in> set (bans d). b_lobby b = lid \<and> b_user b = uid)"

definition Member :: "db \<Rightarrow> int \<Rightarrow> int \<Rightarrow> bool" where
  "Member d lid uid = (\<exists>m \<in> set (memberships d). m_lobby m = lid \<and> m_user m = uid)"

definition member_count :: "db \<Rightarrow> int \<Rightarrow> nat" where
  "member_count d lid = length (filter (\<lambda>m. m_lobby m = lid) (memberships d))"


section \<open>The REST surface (chat/views.py)\<close>

text \<open>
  A view body runs after the framework has resolved \<open>self.get_object()\<close> and passed its
  permission gate; it receives the requesting user, the lobby and the request data, and
  returns the response with the store it leaves. The only state a view touches is the
  durable store: \<open>views.py\<close> has no call into the channel layer.
\<close>

datatype body = Message string | Error string | SerializerErrors

datatype response = Response body nat

fun status_code :: "response \<Rightarrow> nat" where
  "status_code (Response b st) = st"

text \<open>
  Request data as the serializer fields read it: \<open>user_id\<close> is \<open>None\<close> when the key is
  missing or no integer, \<open>reason\<close> is \<open>None\<close> when the key is missing.
\<close>

record mod_data =
  d_user_id :: "int option"
  d_reason :: "string option"

definition user_by_id :: "db \<Rightarrow> int \<Rightarrow> user option" where
  "user_by_id d i = find (\<lambda>u. u_id u = i) (users d)"

text \<open>
  \<open>KickUserSerializer\<close> and \<open>BanUserSerializer\<close> (the same fields and the same
  \<open>validate_user_id\<close>): \<open>None\<close> is \<open>is_valid() = False\<close>, otherwise the validated data.
\<close>

definition reason_serializer :: "db \<Rightarrow> mod_data \<Rightarrow> (int \<times> string option) option" where
  "reason_serializer d data =
     (case d_user_id data of
        None \<Rightarrow> None
      | Some v \<Rightarrow>
          (case user_by_id d v of
             None \<Rightarrow> None
           | Some _ \<Rightarrow>
               (case d_reason data of
                  None \<Rightarrow> Some (v, None)
                | Some r \<Rightarrow> if length r > 500 then None else Some (v, Some r))))"

text \<open>\<open>UnbanUserSerializer\<close>, \<open>ModeratorSerializer\<close>, \<open>TransferOwnershipSerializer\<close>.\<close>

definition user_id_serializer :: "db \<Rightarrow> mod_data \<Rightarrow> int option" where
  "user_id_serializer d data =
     (case d_user_id data of
        None \<Rightarrow> None
      | Some v \<Rightarrow> (case user_by_id d v of None \<Rightarrow> None | Some _ \<Rightarrow> Some v))"

text \<open>
  \<open>LobbyMembership.objects.get(user=..., lobby=...)\<close> and \<open>LobbyBan.objects.get(...)\<close>;
  \<open>None\<close> is \<open>DoesNotExist\<close>.
\<close>

definition get_membership :: "db \<Rightarrow> int \<Rightarrow> int \<Rightarrow> lobby_membership option" where
  "get_membership d uid lid = find (\<lambda>m. m_user m = uid \<and> m_lobby m = lid) (memberships d)"

definition get_ban :: "db \<Rightarrow> int \<Rightarrow> int \<Rightarrow> lobby_ban option" where
  "get_ban d lid uid = find (\<lambda>b. b_lobby b = lid \<and> b_user b = uid) (bans d)"

definition same_membership :: "lobby_membership \<Rightarrow> lobby_membership \<Rightarrow> bool" where
  "same_membership m r = (m_user r = m_user m \<and> m_lobby r = m_lobby m)"

definition same_ban :: "lobby_ban \<Rightarrow> lobby_ban \<Rightarrow> bool" where
  "same_ban b r = (b_lobby r = b_lobby b \<and> b_user r = b_user b)"

text \<open>\<open>membership.delete()\<close>, \<open>membership.save()\<close>, \<open>ban.delete()\<close>, \<open>lobby.save()\<close>.\<close>

definition delete_membership :: "db \<Rightarrow> lobby_membership \<Rightarrow> db" where
  "delete_membership d m =
     d\<lparr>memberships := filter (\<lambda>r. \<not> same_membership m r) (memberships d)\<rparr>"

definition save_membership :: "db \<Rightarrow> lobby_membership \<Rightarrow> db" where
  "save_membership d m =
     d\<lparr>memberships := map (\<lambda>r. if same_membership m r then m else r) (memberships d)\<rparr>"

definition delete_ban :: "db \<Rightarrow> lobby_ban \<Rightarrow> db" where
  "delete_ban d b = d\<lparr>bans := filter (\<lambda>r. \<not> same_ban b r) (bans d)\<rparr>"

definition save_lobby :: "db \<Rightarrow> lobby \<Rightarrow> db" where
  "save_lobby d l = d\<lparr>lobbies := map (\<lambda>r. if l_id r = l_id l then l else r) (lobbies d)\<rparr>"

definition create_event :: "db \<Rightarrow> lobby_event \<Rightarrow> db" where
  "create_event d ev = d\<lparr>events := events d @ [ev]\<rparr>"

definition join :: "db \<Rightarrow> user \<Rightarrow> lobby \<Rightarrow> response \<times> db" where
  "join d ru l =
     (case can_join d l ru of
        (False, msg) \<Rightarrow> (Response (Error msg) 400, d)
      | (True, _) \<Rightarrow>
          (case get_membership d (u_id ru) (l_id l) of
             Some _ \<Rightarrow> (Response (Error ''Already in lobby'') 400, d)
           | None \<Rightarrow>
               (let d1 = d\<lparr>memberships := memberships d @
                            [\<lparr>m_user = u_id ru, m_lobby = l_id l, m_role = ''member''\<rparr>]\<rparr>;
                    d2 = create_event d1
                           \<lparr>e_lobby = l_id l, e_event_type = ''status_change'',
                            e_actor = Some (u_id ru), e_target = None,
                            e_description = u_username ru @ '' joined the lobby'',
                            e_metadata = []\<rparr>
                in (Response (Message ''Joined lobby successfully'') 200, d2))))"

definition leave :: "db \<Rightarrow> user \<Rightarrow> lobby \<Rightarrow> response \<times> db" where
  "leave d ru l =
     (case get_membership d (u_id ru) (l_id l) of
        None \<Rightarrow> (Response (Error ''Not in lobby'') 400, d)
      | Some membership \<Rightarrow>
          if m_role membership = ''owner''
          then (Response (Error ''Owner cannot leave lobby. Transfer ownership first.'') 400, d)
          else
            (let d1 = delete_membership d membership;
                 d2 = create_event d1
                        \<lparr>e_lobby = l_id l, e_event_type = ''status_change'',
                         e_actor = Some (u_id ru), e_target = None,
                         e_description = u_username ru @ '' left the lobby'',
                         e_metadata = []\<rparr>
             in (Response (Message ''Left lobby successfully'') 200, d2)))"

definition start :: "db \<Rightarrow> user \<Rightarrow> lobby \<Rightarrow> response \<times> db" where
  "start d ru l =
     (let l1 = l\<lparr>l_status := ''in_game''\<rparr>;
          d1 = save_lobby d l1;
          d2 = create_event d1
                 \<lparr>e_lobby = l_id l, e_event_type = ''status_change'',
                  e_actor = Some (u_id ru), e_target = None,
                  e_description = ''Game started'',
                  e_metadata = [(''status'', ''in_game'')]\<rparr>
      in (Response (Message ''Game started'') 200, d2))"

definition close :: "db \<Rightarrow> user \<Rightarrow> lobby \<Rightarrow> response \<times> db" where
  "close d ru l =
     (let l1 = l\<lparr>l_status := ''closed''\<rparr>;
          d1 = save_lobby d l1;
          d2 = create_event d1
                 \<lparr>e_lobby = l_id l, e_event_type = ''status_change'',
                  e_actor = Some (u_id ru), e_target = None,
                  e_description = ''Lobby closed'',
                  e_metadata = [(''status'', ''closed'')]\<rparr>
      in (Response (Message ''Lobby closed'') 200, d2))"

definition kick :: "db \<Rightarrow> user \<Rightarrow> lobby \<Rightarrow> mod_data \<Rightarrow> response \<times> db" where
  "kick d ru l data =
     (case reason_serializer d data of
        None \<Rightarrow> (Response SerializerErrors 400, d)
      | Some (user_id, reason_opt) \<Rightarrow>
          (let reason = (case reason_opt of None \<Rightarrow> [] | Some r \<Rightarrow> r) in
           case user_by_id d user_id of
             None \<Rightarrow> (Response (Error ''User not found'') 404, d)
           | Some u \<Rightarrow>
               (case get_membership d (u_id u) (l_id l) of
                  None \<Rightarrow> (Response (Error ''User not in lobby'') 400, d)
                | Some membership \<Rightarrow>
                    if m_role membership = ''owner''
                    then (Response (Error ''Cannot kick lobby owner'') 400, d)
                    else
                      (let d1 = delete_membership d membership;
                           d2 = create_event d1
                                  \<lparr>e_lobby = l_id l, e_event_type = ''kick'',
                                   e_actor = Some (u_id ru), e_target = Some (u_id u),
                                   e_description =
                                     u_username u @ '' kicked from lobby. Reason: '' @ reason,
                                   e_metadata = [(''reason'', reason)]\<rparr>
                       in (Response (Message (''User '' @ u_username u @ '' kicked successfully''))
                             200, d2)))))"

definition ban :: "db \<Rightarrow> user \<Rightarrow> lobby \<Rightarrow> mod_data \<Rightarrow> response \<times> db" where
  "ban d ru l data =
     (case reason_serializer d data of
        None \<Rightarrow> (Response SerializerErrors 400, d)
      | Some (user_id, reason_opt) \<Rightarrow>
          (let reason = (case reason_opt of None \<Rightarrow> [] | Some r \<Rightarrow> r) in
           case user_by_id d user_id of
             None \<Rightarrow> (Response (Error ''User not found'') 404, d)
           | Some u \<Rightarrow>
               if l_owner l = u_id u
               then (Response (Error ''Cannot ban lobby owner'') 400, d)
               else
                 (let d1 = d\<lparr>memberships :=
                              filter (\<lambda>m. \<not> (m_user m = u_id u \<and> m_lobby m = l_id l))
                                (memberships d)\<rparr>
                  in case get_ban d1 (l_id l) (u_id u) of
                       Some _ \<Rightarrow> (Response (Error ''User already banned'') 400, d1)
                     | None \<Rightarrow>
                         (let d2 = d1\<lparr>bans := bans d1 @
                                      [\<lparr>b_lobby = l_id l, b_user = u_id u, b_reason = reason,
                                        b_banned_by = Some (u_id ru)\<rparr>]\<rparr>;
                              d3 = create_event d2
                                     \<lparr>e_lobby = l_id l, e_event_type = ''ban'',
                                      e_actor = Some (u_id ru), e_target = Some (u_id u),
                                      e_description =
                                        u_username u @ '' banned from lobby. Reason: '' @ reason,
                                      e_metadata = [(''reason'', reason)]\<rparr>
                          in (Response (Message (''User '' @ u_username u @ '' banned successfully''))
                                200, d3)))))"

definition unban :: "db \<Rightarrow> user \<Rightarrow> lobby \<Rightarrow> mod_data \<Rightarrow> response \<times> db" where
  "unban d ru l data =
     (case user_id_serializer d data of
        None \<Rightarrow> (Response SerializerErrors 400, d)
      | Some user_id \<Rightarrow>
          (case user_by_id d user_id of
             None \<Rightarrow> (Response (Error ''User not found'') 404, d)
           | Some u \<Rightarrow>
               (case get_ban d (l_id l) (u_id u) of
                  None \<Rightarrow> (Response (Error ''User not banned'') 400, d)
                | Some b \<Rightarrow>
                    (let d1 = delete_ban d b;
                         d2 = create_event d1
                                \<lparr>e_lobby = l_id l, e_event_type = ''unban'',
                                 e_actor = Some (u_id ru), e_target = Some (u_id u),
                                 e_description = u_username u @ '' unbanned from lobby'',
                                 e_metadata = []\<rparr>
                     in (Response (Message (''User '' @ u_username u @ '' unbanned successfully''))
                           200, d2)))))"

definition add_moderator :: "db \<Rightarrow> user \<Rightarrow> lobby \<Rightarrow> mod_data \<Rightarrow> response \<times> db" where
  "add_moderator d ru l data =
     (case user_id_serializer d data of
        None \<Rightarrow> (Response SerializerErrors 400, d)
      | Some user_id \<Rightarrow>
          (case user_by_id d user_id of
             None \<Rightarrow> (Response (Error ''User not found'') 404, d)
           | Some u \<Rightarrow>
               (case get_membership d (u_id u) (l_id l) of
                  None \<Rightarrow> (Response (Error ''User not in lobby'') 400, d)
                | Some membership \<Rightarrow>
                    if m_role membership = ''owner''
                    then (Response (Error ''Owner is already a moderator'') 400, d)
                    else
                      (let d1 = save_membership d (membership\<lparr>m_role := ''moderator''\<rparr>);
                           d2 = create_event d1
                                  \<lparr>e_lobby = l_id l, e_event_type = ''mod_add'',
                                   e_actor = Some (u_id ru), e_target = Some (u_id u),
                                   e_description = u_username u @ '' promoted to moderator'',
                                   e_metadata = []\<rparr>
                       in (Response (Message (''User '' @ u_username u @ '' promoted to moderator''))
                             200, d2)))))"

definition remove_moderator :: "db \<Rightarrow> user \<Rightarrow> lobby \<Rightarrow> mod_data \<Rightarrow> response \<times> db" where
  "remove_moderator d ru l data =
     (case user_id_serializer d data of
        None \<Rightarrow> (Response SerializerErrors 400, d)
      | Some user_id \<Rightarrow>
          (case user_by_id d user_id of
             None \<Rightarrow> (Response (Error ''User not found'') 404, d)
           | Some u \<Rightarrow>
               (case get_membership d (u_id u) (l_id l) of
                  None \<Rightarrow> (Response (Error ''User not in lobby'') 400, d)
                | Some membership \<Rightarrow>
                    if m_role membership \<noteq> ''moderator''
                    then (Response (Error ''User is not a moderator'') 400, d)
                    else
                      (let d1 = save_membership d (membership\<lparr>m_role := ''member''\<rparr>);
                           d2 = create_event d1
                                  \<lparr>e_lobby = l_id l, e_event_type = ''mod_remove'',
                                   e_actor = Some (u_id ru), e_target = Some (u_id u),
                                   e_description = u_username u @ '' demoted from moderator'',
                                   e_metadata = []\<rparr>
                       in (Response (Message (''User '' @ u_username u @ '' demoted from moderator''))
                             200, d2)))))"

text \<open>
  \<open>transfer_ownership\<close>: the block under \<open>transaction.atomic()\<close> is rolled back when the old
  owner's membership row is missing, and the \<open>DoesNotExist\<close> reaches the outer handler.
\<close>

definition transfer_ownership :: "db \<Rightarrow> user \<Rightarrow> lobby \<Rightarrow> mod_data \<Rightarrow> response \<times> db" where
  "transfer_ownership d ru l data =
     (case user_id_serializer d data of
        None \<Rightarrow> (Response SerializerErrors 400, d)
      | Some user_id \<Rightarrow>
          (case user_by_id d user_id of
             None \<Rightarrow> (Response (Error ''User not found'') 404, d)
           | Some u \<Rightarrow>
               (case get_membership d (u_id u) (l_id l) of
                  None \<Rightarrow> (Response (Error ''User not in lobby'') 400, d)
                | Some membership \<Rightarrow>
                    (let old_owner = l_owner l;
                         d1 = save_lobby d (l\<lparr>l_owner := u_id u\<rparr>)
                     in case get_membership d1 old_owner (l_id l) of
                          None \<Rightarrow> (Response (Error ''User not in lobby'') 400, d)
                        | Some old_owner_membership \<Rightarrow>
                            (let d2 = save_membership d1
                                        (old_owner_membership\<lparr>m_role := ''member''\<rparr>);
                                 d3 = save_membership d2 (membership\<lparr>m_role := ''owner''\<rparr>);
                                 d4 = create_event d3
                                        \<lparr>e_lobby = l_id l, e_event_type = ''transfer'',
                                         e_actor = Some (u_id ru), e_target = Some (u_id u),
                                         e_description =
                                           ''Ownership transferred to '' @ u_username u,
                                         e_metadata = []\<rparr>
                             in (Response (Message (''Ownership transferred to '' @ u_username u))
                                   200, d4))))))"


section \<open>The live session engine (chat/consumers.py)\<close>

text \<open>
  \<open>scope['user']\<close> is a row of the user table or Django's \<open>AnonymousUser\<close>, whose \<open>id\<close> is
  \<open>None\<close> and whose \<open>username\<close> is empty.
\<close>

datatype scope_user = AnonymousUser | AuthUser user

fun is_authenticated :: "scope_user \<Rightarrow> bool" where
  "is_authenticated AnonymousUser = False"
| "is_authenticated (AuthUser u) = True"

fun user_pk :: "scope_user \<Rightarrow> int option" where
  "user_pk AnonymousUser = None"
| "user_pk (AuthUser u) = Some (u_id u)"

fun user_name :: "scope_user \<Rightarrow> string" where
  "user_name AnonymousUser = []"
| "user_name (AuthUser u) = u_username u"

type_synonym channel = nat

text \<open>The group \<open>f'lobby_{lobby_id}'\<close> is named by the lobby id it is formatted from.\<close>

type_synonym group = int

record chat_payload =
  cp_id :: int
  cp_content :: pystr
  cp_sender_id :: int
  cp_sender_username :: string
  cp_sender_is_premium :: bool
  cp_created_at :: time

text \<open>
  The events sent through the channel layer, one constructor per \<open>type\<close>. A field a
  handler reads with \<open>event.get(key, '')\<close> is optional; \<open>target_id\<close> is read with
  \<open>event['target_id']\<close>.
\<close>

datatype event =
    ChatMessage chat_payload
  | PresenceJoin int string bool
  | PresenceLeave int string
  | TypingStart "int option" string
  | TypingStop "int option" string
  | ModerationKick int "string option" "string option"
  | ModerationBan int "string option" "string option"
  | SystemStatus string "string option"

datatype py_exception = AttributeError | TypeError

text \<open>
  The JSON frames sent to a client. \<open>FErrorProcessing e\<close> is the error frame whose message
  is \<open>f'Error processing message: {str(e)}'\<close>. The two frames of type \<open>moderation_kick\<close> (and of
  \<open>moderation_ban\<close>) differ in their keys: the one for the target carries \<open>reason\<close> and
  \<open>message\<close>, the informational one \<open>target_id\<close>, \<open>target_username\<close> and \<open>reason\<close>.
\<close>

datatype frame =
    FPresenceList "user list"
  | FChatMessage chat_payload
  | FPresenceJoin int string bool
  | FPresenceLeave int string
  | FTypingStart "int option" string
  | FTypingStop "int option" string
  | FModerationKickTarget string string
  | FModerationKickInfo int string string
  | FModerationBanTarget string string
  | FModerationBanInfo int string string
  | FSystemStatus string string
  | FError string
  | FErrorProcessing py_exception

text \<open>
  The cache keys \<open>f'rate_limit:user:{user.id}:lobby:{lobby_id}'\<close> and
  \<open>f'lobby_presence:{lobby_id}'\<close>, by the values they are formatted from.
\<close>

datatype cache_key = RateLimitKey "int option" int | PresenceKey int

text \<open>What a handler does to the outside, in the order it does it.\<close>

datatype effect =
    GroupAdd group channel
  | GroupDiscard group channel
  | GroupSend group event
  | Accept channel
  | Send channel frame
  | Close channel nat
  | CacheSet cache_key
  | CacheDelete cache_key

text \<open>
  The state the sessions share: the durable store, the cache (one typed map per key
  family, an entry holding its value and the time it expires), the channel layer (the
  groups and the queue of every channel) and the trace of effects. \<open>store_fails\<close> is the
  condition of the external store under which the insert of \<open>save_message\<close> raises.
\<close>

record world =
  store :: db
  store_fails :: bool
  rate_cache :: "int option \<times> int \<Rightarrow> (time list \<times> time) option"
  presence_cache :: "int \<Rightarrow> (int option set \<times> time) option"
  groups :: "group \<Rightarrow> channel list"
  mailbox :: "channel \<Rightarrow> event list"
  trace :: "effect list"

text \<open>
  The attributes of a \<open>LobbyConsumer\<close> instance. \<open>connect\<close> binds \<open>lobby_id\<close>,
  \<open>lobby_group_name\<close> and \<open>user\<close> in its first three statements, before anything else
  happens on the connection, so the instance is modelled from there on.
\<close>

record consumer =
  c_channel_name :: channel
  c_lobby_id :: int
  c_lobby_group_name :: group
  c_user :: scope_user
  c_lobby :: "lobby option"

definition emit :: "world \<Rightarrow> effect \<Rightarrow> world" where
  "emit w e = w\<lparr>trace := trace w @ [e]\<rparr>"

subsection \<open>The transport and the channel layer\<close>

definition ws_send :: "world \<Rightarrow> consumer \<Rightarrow> frame \<Rightarrow> world" where
  "ws_send w self fr = emit w (Send (c_channel_name self) fr)"

definition ws_close :: "world \<Rightarrow> consumer \<Rightarrow> nat \<Rightarrow> world" where
  "ws_close w self code = emit w (Close (c_channel_name self) code)"

definition ws_accept :: "world \<Rightarrow> consumer \<Rightarrow> world" where
  "ws_accept w self = emit w (Accept (c_channel_name self))"

definition send_error :: "world \<Rightarrow> consumer \<Rightarrow> string \<Rightarrow> world" where
  "send_error w self msg = ws_send w self (FError msg)"

definition group_add :: "world \<Rightarrow> group \<Rightarrow> channel \<Rightarrow> world" where
  "group_add w g ch =
     emit (w\<lparr>groups := (groups w)(g := (if ch \<in> set (groups w g) then groups w g
                                          else groups w g @ [ch]))\<rparr>)
       (GroupAdd g ch)"

definition group_discard :: "world \<Rightarrow> group \<Rightarrow> channel \<Rightarrow> world" where
  "group_discard w g ch =
     emit (w\<lparr>groups := (groups w)(g := removeAll ch (groups w g))\<rparr>) (GroupDiscard g ch)"

text \<open>\<open>group_send\<close> puts the event on the queue of every channel of the group.\<close>

definition group_send :: "world \<Rightarrow> group \<Rightarrow> event \<Rightarrow> world" where
  "group_send w g ev =
     emit (w\<lparr>mailbox := (\<lambda>ch. if ch \<in> set (groups w g) then mailbox w ch @ [ev]
                                 else mailbox w ch)\<rparr>)
       (GroupSend g ev)"

subsection \<open>The cache\<close>

definition seconds :: "int \<Rightarrow> time" where
  "seconds n = n * 1000000"

text \<open>\<open>cache.get(key, default)\<close>: the default when the key is absent or has expired.\<close>

definition rate_get :: "world \<Rightarrow> time \<Rightarrow> int option \<times> int \<Rightarrow> time list" where
  "rate_get w now k =
     (case rate_cache w k of
        None \<Rightarrow> []
      | Some (v, expiry) \<Rightarrow> if now < expiry then v else [])"

definition rate_set :: "world \<Rightarrow> time \<Rightarrow> int option \<times> int \<Rightarrow> time list \<Rightarrow> int \<Rightarrow> world" where
  "rate_set w now k v timeout =
     emit (w\<lparr>rate_cache := (rate_cache w)(k \<mapsto> (v, now + seconds timeout))\<rparr>)
       (CacheSet (RateLimitKey (fst k) (snd k)))"

definition presence_get :: "world \<Rightarrow> time \<Rightarrow> int \<Rightarrow> int option set" where
  "presence_get w now k =
     (case presence_cache w k of
        None \<Rightarrow> {}
      | Some (v, expiry) \<Rightarrow> if now < expiry then v else {})"

definition presence_set :: "world \<Rightarrow> time \<Rightarrow> int \<Rightarrow> int option set \<Rightarrow> int \<Rightarrow> world" where
  "presence_set w now k v timeout =
     emit (w\<lparr>presence_cache := (presence_cache w)(k \<mapsto> (v, now + seconds timeout))\<rparr>)
       (CacheSet (PresenceKey k))"

definition presence_delete :: "world \<Rightarrow> int \<Rightarrow> world" where
  "presence_delete w k =
     emit (w\<lparr>presence_cache := (presence_cache w)(k := None)\<rparr>) (CacheDelete (PresenceKey k))"

subsection \<open>Rate limiting\<close>

text \<open>
  \<open>check_rate_limit\<close>: the stored timestamps newer than the cutoff are counted; on a
  rejection nothing is written.
\<close>

definition check_rate_limit :: "world \<Rightarrow> time \<Rightarrow> consumer \<Rightarrow> bool \<times> world" where
  "check_rate_limit w current_time self =
     (let cache_key = (user_pk (c_user self), c_lobby_id self);
          messages = rate_get w current_time cache_key;
          cutoff_time = current_time - seconds 2;
          messages = filter (\<lambda>msg_time. msg_time > cutoff_time) messages
      in if length messages \<ge> 3 then (False, w)
         else (True, rate_set w current_time cache_key (messages @ [current_time]) 10))"

subsection \<open>Presence\<close>

definition add_user_presence :: "world \<Rightarrow> time \<Rightarrow> consumer \<Rightarrow> world" where
  "add_user_presence w now self =
     (let current_users = presence_get w now (c_lobby_id self);
          current_users = insert (user_pk (c_user self)) current_users
      in presence_set w now (c_lobby_id self) current_users 300)"

definition remove_user_presence :: "world \<Rightarrow> time \<Rightarrow> consumer \<Rightarrow> world" where
  "remove_user_presence w now self =
     (let current_users = presence_get w now (c_lobby_id self);
          current_users = current_users - {user_pk (c_user self)}
      in if current_users \<noteq> {} then presence_set w now (c_lobby_id self) current_users 300
         else presence_delete w (c_lobby_id self))"

definition get_online_users :: "world \<Rightarrow> time \<Rightarrow> consumer \<Rightarrow> user list" where
  "get_online_users w now self =
     (let user_ids = presence_get w now (c_lobby_id self)
      in if user_ids = {} then []
         else filter (\<lambda>u. Some (u_id u) \<in> user_ids) (users (store w)))"

subsection \<open>Connecting and disconnecting\<close>

definition get_lobby :: "world \<Rightarrow> consumer \<Rightarrow> lobby option" where
  "get_lobby w self = find (\<lambda>l. l_id l = c_lobby_id self) (lobbies (store w))"

text \<open>
  \<open>can_user_join\<close> runs after the authentication check of \<open>connect\<close>, on the user row
  that check has let through.
\<close>

definition can_user_join :: "world \<Rightarrow> consumer \<Rightarrow> user \<Rightarrow> bool \<times> string" where
  "can_user_join w self u =
     (case c_lobby self of
        None \<Rightarrow> (False, ''Lobby not found'')
      | Some l \<Rightarrow> can_join (store w) l u)"

definition connect :: "world \<Rightarrow> time \<Rightarrow> channel \<Rightarrow> int \<Rightarrow> scope_user \<Rightarrow> world \<times> consumer" where
  "connect w now ch url_lobby_id su =
     (let self = \<lparr>c_channel_name = ch, c_lobby_id = url_lobby_id,
                  c_lobby_group_name = url_lobby_id, c_user = su, c_lobby = None\<rparr>
      in case su of
           AnonymousUser \<Rightarrow> (ws_close w self 4001, self)
         | AuthUser u \<Rightarrow>
             (let self = self\<lparr>c_lobby := get_lobby w self\<rparr>
              in if c_lobby self = None then (ws_close w self 4004, self)
                 else
                   (case can_user_join w self u of
                      (False, reason) \<Rightarrow> (ws_close (send_error w self reason) self 4003, self)
                    | (True, reason) \<Rightarrow>
                        (let w1 = group_add w (c_lobby_group_name self) (c_channel_name self);
                             w2 = ws_accept w1 self;
                             w3 = add_user_presence w2 now self;
                             w4 = group_send w3 (c_lobby_group_name self)
                                    (PresenceJoin (u_id u) (u_username u) (u_is_premium u));
                             online_users = get_online_users w4 now self;
                             w5 = ws_send w4 self (FPresenceList online_users)
                         in (w5, self)))))"

text \<open>
  \<open>disconnect\<close>. Its outer guard, \<open>hasattr(self, 'lobby_group_name') and
  self.lobby_group_name\<close>, holds on every instance on which \<open>connect\<close> has run: the
  formatted group name is never empty. The inner guard is \<open>self.user and
  self.user.is_authenticated\<close>.
\<close>

definition disconnect :: "world \<Rightarrow> time \<Rightarrow> consumer \<Rightarrow> nat \<Rightarrow> world" where
  "disconnect w now self close_code =
     (let w1 = remove_user_presence w now self;
          w2 = (case c_user self of
                  AnonymousUser \<Rightarrow> w1
                | AuthUser u \<Rightarrow>
                    group_send w1 (c_lobby_group_name self)
                      (PresenceLeave (u_id u) (u_username u)))
      in group_discard w2 (c_lobby_group_name self) (c_channel_name self))"

subsection \<open>Inbound messages\<close>

text \<open>
  Python's \<open>str.strip()\<close> removes the code points for which \<open>str.isspace\<close> holds from both
  ends.
\<close>

definition isspace :: "nat \<Rightarrow> bool" where
  "isspace c =
     ((9 \<le> c \<and> c \<le> 13) \<or> (28 \<le> c \<and> c \<le> 32) \<or> c = 133 \<or> c = 160 \<or> c = 5760
      \<or> (8192 \<le> c \<and> c \<le> 8202) \<or> c = 8232 \<or> c = 8233 \<or> c = 8239 \<or> c = 8287
      \<or> c = 12288)"

definition strip :: "pystr \<Rightarrow> pystr" where
  "strip s = rev (dropWhile isspace (rev (dropWhile isspace s)))"

text \<open>
  The \<open>message\<close> entry of an inbound \<open>chat_message\<close>: absent, a string, or another JSON
  value, on which \<open>.strip()\<close> raises.
\<close>

datatype msg_field = MsgAbsent | MsgStr pystr | MsgOther

definition is_user_member :: "world \<Rightarrow> consumer \<Rightarrow> user \<Rightarrow> bool" where
  "is_user_member w self u =
     (case c_lobby self of
        None \<Rightarrow> False
      | Some l \<Rightarrow>
          exists_qs (filter (\<lambda>m. m_user m = u_id u \<and> m_lobby m = l_id l)
                       (memberships (store w))))"

text \<open>\<open>save_message\<close>: \<open>None\<close> when \<open>Message.objects.create\<close> raises.\<close>

definition save_message :: "world \<Rightarrow> time \<Rightarrow> consumer \<Rightarrow> user \<Rightarrow> pystr \<Rightarrow> (message \<times> world) option" where
  "save_message w now self u content =
     (case c_lobby self of
        None \<Rightarrow> None
      | Some l \<Rightarrow>
          if store_fails w then None
          else
            (let m = \<lparr>msg_id = message_seq (store w) + 1, msg_lobby = l_id l,
                      msg_sender = u_id u, msg_content = content, msg_created_at = now,
                      msg_is_deleted = False\<rparr>
             in Some (m, w\<lparr>store := (store w)\<lparr>messages := messages (store w) @ [m],
                                               message_seq := msg_id m\<rparr>\<rparr>)))"

text \<open>\<open>data.get('message', '')\<close>, where the entry is a string or absent.\<close>

fun message_text :: "msg_field \<Rightarrow> pystr" where
  "message_text (MsgStr s) = s"
| "message_text MsgAbsent = []"
| "message_text MsgOther = []"

text \<open>
  \<open>handle_chat_message\<close>. \<open>Inl (e, w)\<close> is the exception \<open>e\<close> raised in the world \<open>w\<close>: a
  \<open>message\<close> that is no string has no \<open>strip\<close>, and the membership query refuses an
  \<open>AnonymousUser\<close>.
\<close>

definition handle_chat_message :: "world \<Rightarrow> time \<Rightarrow> consumer \<Rightarrow> msg_field \<Rightarrow> (py_exception \<times> world) + world" where
  "handle_chat_message w now self data =
     (case data of
        MsgOther \<Rightarrow> Inl (AttributeError, w)
      | _ \<Rightarrow>
          (let content = strip (message_text data)
           in if content = [] then Inr (send_error w self ''Message cannot be empty'')
              else if length content > 2000
              then Inr (send_error w self ''Message too long (max 2000 characters)'')
              else
                (case check_rate_limit w now self of
                   (False, w1) \<Rightarrow>
                     Inr (send_error w1 self ''Rate limit exceeded. Please slow down.'')
                 | (True, w1) \<Rightarrow>
                     (case c_user self of
                        AnonymousUser \<Rightarrow> Inl (TypeError, w1)
                      | AuthUser u \<Rightarrow>
                          if \<not> is_user_member w1 self u
                          then Inr (ws_close
                                      (send_error w1 self ''You are not a member of this lobby'')
                                      self 4003)
                          else
                            (case save_message w1 now self u content of
                               None \<Rightarrow> Inr (send_error w1 self ''Failed to save message'')
                             | Some (message, w2) \<Rightarrow>
                                 Inr (group_send w2 (c_lobby_group_name self)
                                        (ChatMessage
                                           \<lparr>cp_id = msg_id message,
                                            cp_content = msg_content message,
                                            cp_sender_id = u_id u,
                                            cp_sender_username = u_username u,
                                            cp_sender_is_premium = u_is_premium u,
                                            cp_created_at = msg_created_at message\<rparr>)))))))"

definition handle_typing_start :: "world \<Rightarrow> consumer \<Rightarrow> world" where
  "handle_typing_start w self =
     group_send w (c_lobby_group_name self)
       (TypingStart (user_pk (c_user self)) (user_name (c_user self)))"

definition handle_typing_stop :: "world \<Rightarrow> consumer \<Rightarrow> world" where
  "handle_typing_stop w self =
     group_send w (c_lobby_group_name self)
       (TypingStop (user_pk (c_user self)) (user_name (c_user self)))"

subsection \<open>Events from the group\<close>

definition get_or_empty :: "string option \<Rightarrow> string" where
  "get_or_empty v = (case v of None \<Rightarrow> [] | Some s \<Rightarrow> s)"

definition moderation_kick :: "world \<Rightarrow> consumer \<Rightarrow> int \<Rightarrow> string option \<Rightarrow> string option \<Rightarrow> world" where
  "moderation_kick w self target_id target_username reason =
     (if Some target_id = user_pk (c_user self)
      then ws_close
             (ws_send w self
                (FModerationKickTarget (get_or_empty reason)
                   ''You have been kicked from the lobby''))
             self 4003
      else ws_send w self
             (FModerationKickInfo target_id (get_or_empty target_username)
                (get_or_empty reason)))"

definition moderation_ban :: "world \<Rightarrow> consumer \<Rightarrow> int \<Rightarrow> string option \<Rightarrow> string option \<Rightarrow> world" where
  "moderation_ban w self target_id target_username reason =
     (if Some target_id = user_pk (c_user self)
      then ws_close
             (ws_send w self
                (FModerationBanTarget (get_or_empty reason)
                   ''You have been banned from the lobby''))
             self 4003
      else ws_send w self
             (FModerationBanInfo target_id (get_or_empty target_username)
                (get_or_empty reason)))"

text \<open>The handler of each event type, as the consumer's dispatch by \<open>type\<close> picks it.\<close>

fun dispatch :: "world \<Rightarrow> consumer \<Rightarrow> event \<Rightarrow> world" where
  "dispatch w self (ChatMessage m) = ws_send w self (FChatMessage m)"
| "dispatch w self (PresenceJoin uid uname prem) = ws_send w self (FPresenceJoin uid uname prem)"
| "dispatch w self (PresenceLeave uid uname) = ws_send w self (FPresenceLeave uid uname)"
| "dispatch w self (TypingStart uid uname) =
     (if uid \<noteq> user_pk (c_user self) then ws_send w self (FTypingStart uid uname) else w)"
| "dispatch w self (TypingStop uid uname) =
     (if uid \<noteq> user_pk (c_user self) then ws_send w self (FTypingStop uid uname) else w)"
| "dispatch w self (ModerationKick target_id target_username reason) =
     moderation_kick w self target_id target_username reason"
| "dispatch w self (ModerationBan target_id target_username reason) =
     moderation_ban w self target_id target_username reason"
| "dispatch w self (SystemStatus st msg) = ws_send w self (FSystemStatus st (get_or_empty msg))"


text \<open>
  A consumer takes the next event off the queue of its channel and runs the handler of
  its type.
\<close>

definition deliver :: "world \<Rightarrow> consumer \<Rightarrow> world" where
  "deliver w self =
     (case mailbox w (c_channel_name self) of
        [] \<Rightarrow> w
      | ev # rest \<Rightarrow>
          dispatch (w\<lparr>mailbox := (mailbox w)(c_channel_name self := rest)\<rparr>) self ev)"

text \<open>
  The text of an inbound frame by what \<open>json.loads\<close> and \<open>data.get('type')\<close> make of it.
  A JSON value that is no object has no \<open>get\<close>.
\<close>

datatype inbound =
    InInvalidJSON
  | InNotAnObject
  | InChatMessage msg_field
  | InTypingStart
  | InTypingStop
  | InUnknownType

text \<open>
  A WebSocket frame is text or binary. The server's \<open>websocket_receive\<close> passes a text
  frame as \<open>receive(text_data=...)\<close> and a binary frame as \<open>receive(bytes_data=...)\<close>.
\<close>

datatype ws_frame = TextFrame inbound | BinaryFrame

text \<open>
  \<open>receive(self, text_data)\<close> has no \<open>bytes_data\<close> parameter. The call for a binary frame
  raises \<open>TypeError\<close> before the body starts, so the \<open>try\<close> of the body never sees it and
  the exception leaves the handler (\<open>Inl\<close>). Whatever is raised inside the body is caught
  there and answered with an error frame.
\<close>

definition receive :: "world \<Rightarrow> time \<Rightarrow> consumer \<Rightarrow> ws_frame \<Rightarrow> py_exception + world" where
  "receive w now self fr =
     (case fr of
        BinaryFrame \<Rightarrow> Inl TypeError
      | TextFrame text_data \<Rightarrow>
          Inr (case text_data of
                 InInvalidJSON \<Rightarrow> send_error w self ''Invalid JSON''
               | InNotAnObject \<Rightarrow> ws_send w self (FErrorProcessing AttributeError)
               | InChatMessage data \<Rightarrow>
                   (case handle_chat_message w now self data of
                      Inr w' \<Rightarrow> w'
                    | Inl (e, w') \<Rightarrow> ws_send w' self (FErrorProcessing e))
               | InTypingStart \<Rightarrow> handle_typing_start w self
               | InTypingStop \<Rightarrow> handle_typing_stop w self
               | InUnknownType \<Rightarrow> send_error w self ''Unknown message type''))"

section \<open>The system of sessions\<close>

text \<open>
  The server runs one consumer instance per open socket. A handler runs to its end
  before the next one starts. An instance starts with its \<open>connect\<close> and ends in one of
  two ways. When the socket closes, whoever closed it, the server calls \<open>disconnect\<close>,
  once, and drops the instance. When an exception leaves a handler, the instance is gone
  at once and \<open>disconnect\<close> never runs for it: the system keeps these instances, with
  their channels, in \<open>abandoned\<close>.
\<close>

record system =
  sys_world :: world
  sessions :: "channel \<Rightarrow> consumer option"
  abandoned :: "(channel \<times> consumer) list"
  clock :: time

datatype ending = Disconnected nat | Raised py_exception

fun end_session :: "system \<Rightarrow> time \<Rightarrow> channel \<Rightarrow> consumer \<Rightarrow> ending \<Rightarrow> system" where
  "end_session s t ch self (Disconnected close_code) =
     \<lparr>sys_world = disconnect (sys_world s) t self close_code,
      sessions = (sessions s)(ch := None), abandoned = abandoned s, clock = t\<rparr>"
| "end_session s t ch self (Raised e) =
     \<lparr>sys_world = sys_world s,
      sessions = (sessions s)(ch := None), abandoned = abandoned s @ [(ch, self)], clock = t\<rparr>"

definition initial_world :: "db \<Rightarrow> world" where
  "initial_world d =
     \<lparr>store = d, store_fails = False, rate_cache = (\<lambda>k. None), presence_cache = (\<lambda>k. None),
      groups = (\<lambda>g. []), mailbox = (\<lambda>ch. []), trace = []\<rparr>"

definition initial_system :: "db \<Rightarrow> time \<Rightarrow> system" where
  "initial_system d t =
     \<lparr>sys_world = initial_world d, sessions = (\<lambda>ch. None), abandoned = [], clock = t\<rparr>"

text \<open>A session has joined when the server has accepted its socket.\<close>

definition joined :: "world \<Rightarrow> channel \<Rightarrow> bool" where
  "joined w ch = (Accept ch \<in> set (trace w))"

fun effect_channel :: "effect \<Rightarrow> channel option" where
  "effect_channel (GroupAdd g ch) = Some ch"
| "effect_channel (GroupDiscard g ch) = Some ch"
| "effect_channel (Accept ch) = Some ch"
| "effect_channel (Send ch fr) = Some ch"
| "effect_channel (Close ch code) = Some ch"
| "effect_channel (GroupSend g ev) = None"
| "effect_channel (CacheSet k) = None"
| "effect_channel (CacheDelete k) = None"

text \<open>A channel name is new when no effect so far names it.\<close>

definition new_channel :: "world \<Rightarrow> channel \<Rightarrow> bool" where
  "new_channel w ch = (Some ch \<notin> effect_channel ` set (trace w))"

text \<open>
  The states the system reaches. The store changes under every session (the REST surface
  and the admin write to it), and the channel layer takes events from any process. A
  frame reaches a session that has joined; a binary frame makes \<open>receive\<close> raise and the
  instance ends without its \<open>disconnect\<close> (\<open>r_receive_raises\<close>). An instance is lost the
  same way when another handler raises, when its task is cancelled or when its process
  dies (\<open>r_lost\<close>).
\<close>

inductive reachable :: "system \<Rightarrow> bool" where
  r_init: "reachable (initial_system d t)"
| r_connect:
    "reachable s \<Longrightarrow> clock s \<le> t \<Longrightarrow> sessions s ch = None \<Longrightarrow> new_channel (sys_world s) ch \<Longrightarrow>
     connect (sys_world s) t ch lid su = (w', self) \<Longrightarrow>
     reachable \<lparr>sys_world = w', sessions = (sessions s)(ch \<mapsto> self),
                abandoned = abandoned s, clock = t\<rparr>"
| r_disconnect:
    "reachable s \<Longrightarrow> clock s \<le> t \<Longrightarrow> sessions s ch = Some self \<Longrightarrow>
     reachable (end_session s t ch self (Disconnected code))"
| r_receive:
    "reachable s \<Longrightarrow> clock s \<le> t \<Longrightarrow> sessions s ch = Some self \<Longrightarrow> joined (sys_world s) ch \<Longrightarrow>
     receive (sys_world s) t self fr = Inr w' \<Longrightarrow>
     reachable \<lparr>sys_world = w', sessions = sessions s, abandoned = abandoned s, clock = t\<rparr>"
| r_receive_raises:
    "reachable s \<Longrightarrow> clock s \<le> t \<Longrightarrow> sessions s ch = Some self \<Longrightarrow> joined (sys_world s) ch \<Longrightarrow>
     receive (sys_world s) t self fr = Inl e \<Longrightarrow>
     reachable (end_session s t ch self (Raised e))"
| r_lost:
    "reachable s \<Longrightarrow> clock s \<le> t \<Longrightarrow> sessions s ch = Some self \<Longrightarrow>
     reachable (end_session s t ch self (Raised e))"
| r_deliver:
    "reachable s \<Longrightarrow> sessions s ch = Some self \<Longrightarrow>
     reachable \<lparr>sys_world = deliver (sys_world s) self, sessions = sessions s,
                abandoned = abandoned s, clock = clock s\<rparr>"
| r_store:
    "reachable s \<Longrightarrow>
     reachable \<lparr>sys_world = (sys_world s)\<lparr>store := d, store_fails := b\<rparr>,
                sessions = sessions s, abandoned = abandoned s, clock = clock s\<rparr>"
| r_group_send:
    "reachable s \<Longrightarrow>
     reachable \<lparr>sys_world = group_send (sys_world s) g ev, sessions = sessions s,
                abandoned = abandoned s, clock = clock s\<rparr>"
| r_tick:
    "reachable s \<Longrightarrow> clock s \<le> t \<Longrightarrow>
     reachable \<lparr>sys_world = sys_world s, sessions = sessions s, abandoned = abandoned s,
                clock = t\<rparr>"

text \<open>\<open>List(lobby)\<close>: the presence set a session reads at the time of the system's clock.\<close>

definition presence_list :: "system \<Rightarrow> int \<Rightarrow> int option set" where
  "presence_list s lid = presence_get (sys_world s) (clock s) lid"

text \<open>A live Connection Session of a user in a lobby: an instance that has joined.\<close>

definition live_session :: "system \<Rightarrow> int \<Rightarrow> int \<Rightarrow> channel \<Rightarrow> bool" where
  "live_session s uid lid ch =
     (case sessions s ch of
        None \<Rightarrow> False
      | Some self \<Rightarrow>
          joined (sys_world s) ch \<and> user_pk (c_user self) = Some uid \<and> c_lobby_id self = lid)"

text \<open>
  A session of a user in a lobby that joined and ended without its \<open>disconnect\<close>.
\<close>

definition abandoned_session :: "system \<Rightarrow> int \<Rightarrow> int \<Rightarrow> channel \<Rightarrow> bool" where
  "abandoned_session s uid lid ch =
     (\<exists>p \<in> set (abandoned s).
        fst p = ch \<and> joined (sys_world s) ch \<and> user_pk (c_user (snd p)) = Some uid
        \<and> c_lobby_id (snd p) = lid)"

text \<open>A request of the REST surface, run against the shared state.\<close>

definition rest :: "world \<Rightarrow> (db \<Rightarrow> response \<times> db) \<Rightarrow> response \<times> world" where
  "rest w view = (case view (store w) of (r, d) \<Rightarrow> (r, w\<lparr>store := d\<rparr>))"

datatype moderation =
    Kick mod_data
  | Ban mod_data
  | Unban mod_data
  | Promote mod_data
  | Demote mod_data
  | Transfer mod_data
  | Start
  | CloseLobby

fun moderate :: "moderation \<Rightarrow> user \<Rightarrow> lobby \<Rightarrow> db \<Rightarrow> response \<times> db" where
  "moderate (Kick data) ru l d = kick d ru l data"
| "moderate (Ban data) ru l d = ban d ru l data"
| "moderate (Unban data) ru l d = unban d ru l data"
| "moderate (Promote data) ru l d = add_moderator d ru l data"
| "moderate (Demote data) ru l d = remove_moderator d ru l data"
| "moderate (Transfer data) ru l d = transfer_ownership d ru l data"
| "moderate Start ru l d = start d ru l"
| "moderate CloseLobby ru l d = close d ru l"

text \<open>The \<open>event_type\<close> of the audit row each action writes.\<close>

fun audit_type :: "moderation \<Rightarrow> string" where
  "audit_type (Kick data) = ''kick''"
| "audit_type (Ban data) = ''ban''"
| "audit_type (Unban data) = ''unban''"
| "audit_type (Promote data) = ''mod_add''"
| "audit_type (Demote data) = ''mod_remove''"
| "audit_type (Transfer data) = ''transfer''"
| "audit_type Start = ''status_change''"
| "audit_type CloseLobby = ''status_change''"


section \<open>Store invariants\<close>

text \<open>The \<open>unique_together\<close> constraint of the membership table.\<close>

definition unique_memberships :: "db \<Rightarrow> bool" where
  "unique_memberships d = distinct (map (\<lambda>m. (m_user m, m_lobby m)) (memberships d))"

section \<open>The rate limiter, restated\<close>

text \<open>
  The check in the words of the specification, on the stored sequence of one key: drop the
  entries older than \<open>now - 2s\<close>, then accept and append iff fewer than 3 remain,
  otherwise reject without a change.
\<close>

definition spec_Allow :: "time list \<Rightarrow> time \<Rightarrow> bool \<times> time list" where
  "spec_Allow stored now =
     (let remaining = filter (\<lambda>t. \<not> t < now - seconds 2) stored
      in if length remaining < 3 then (True, remaining @ [now]) else (False, stored))"

text \<open>Successive calls of \<open>check_rate_limit\<close> on one session, at the given times.\<close>

fun check_rate_limits :: "world \<Rightarrow> consumer \<Rightarrow> time list \<Rightarrow> bool list \<times> world" where
  "check_rate_limits w self [] = ([], w)"
| "check_rate_limits w self (t # ts) =
     (case check_rate_limit w t self of
        (ok, w1) \<Rightarrow> (case check_rate_limits w1 self ts of (oks, w2) \<Rightarrow> (ok # oks, w2)))"

text \<open>The key of a session, and the stored timestamps the check counts.\<close>

definition rate_key :: "consumer \<Rightarrow> int option \<times> int" where
  "rate_key self = (user_pk (c_user self), c_lobby_id self)"

definition fresh_stamps :: "world \<Rightarrow> time \<Rightarrow> consumer \<Rightarrow> time list" where
  "fresh_stamps w now self =
     filter (\<lambda>t. now - seconds 2 < t) (rate_get w now (rate_key self))"

section \<open>Effects of a handler\<close>

text \<open>The effects a handler has added to the trace, from the world before and after.\<close>

definition new_effects :: "world \<Rightarrow> world \<Rightarrow> effect list" where
  "new_effects w w' = drop (length (trace w)) (trace w')"

section \<open>The presence invariant\<close>

text \<open>
  The user ids a presence entry holds, whatever its expiry, and the invariant the
  sessions keep: every id held was put there by a session that joined and whose
  \<open>disconnect\<close> has not run, one that is live or one that was abandoned.
\<close>

definition raw_presence :: "world \<Rightarrow> int \<Rightarrow> int option set" where
  "raw_presence w lid = (case presence_cache w lid of None \<Rightarrow> {} | Some (v, e) \<Rightarrow> v)"

definition presence_backed :: "system \<Rightarrow> bool" where
  "presence_backed s =
     (\<forall>lid uid. Some uid \<in> raw_presence (sys_world s) lid \<longrightarrow>
        (\<exists>ch. live_session s uid lid ch \<or> abandoned_session s uid lid ch))"

section \<open>The audit trail of a moderation action\<close>

text \<open>The \<open>LobbyEvent\<close> row an action of the requesting user on the lobby writes.\<close>

definition audit_row :: "moderation \<Rightarrow> user \<Rightarrow> lobby \<Rightarrow> lobby_event \<Rightarrow> bool" where
  "audit_row a ru l ev =
     (e_event_type ev = audit_type a \<and> e_lobby ev = l_id l \<and> e_actor ev = Some (u_id ru))"

text \<open>
  What a successful action has done to the tables, from the store before and after it.
  A user has a role in a lobby when the user is a member and every membership row of the
  pair carries the role.
\<close>

definition has_role :: "db \<Rightarrow> int \<Rightarrow> int \<Rightarrow> string \<Rightarrow> bool" where
  "has_role d lid uid r =
     (Member d lid uid
      \<and> (\<forall>m \<in> set (memberships d). m_lobby m = lid \<and> m_user m = uid \<longrightarrow> m_role m = r))"

fun store_change :: "moderation \<Rightarrow> user \<Rightarrow> lobby \<Rightarrow> db \<Rightarrow> db \<Rightarrow> bool" where
  "store_change (Kick data) ru l d d' =
     (case d_user_id data of
        None \<Rightarrow> False
      | Some uid \<Rightarrow>
          Member d (l_id l) uid
          \<and> memberships d'
              = filter (\<lambda>m. \<not> (m_user m = uid \<and> m_lobby m = l_id l)) (memberships d)
          \<and> bans d' = bans d \<and> lobbies d' = lobbies d)"
| "store_change (Ban data) ru l d d' =
     (case d_user_id data of
        None \<Rightarrow> False
      | Some uid \<Rightarrow>
          \<not> Banned d (l_id l) uid
          \<and> memberships d'
              = filter (\<lambda>m. \<not> (m_user m = uid \<and> m_lobby m = l_id l)) (memberships d)
          \<and> bans d'
              = bans d @ [\<lparr>b_lobby = l_id l, b_user = uid,
                           b_reason = (case d_reason data of None \<Rightarrow> [] | Some r \<Rightarrow> r),
                           b_banned_by = Some (u_id ru)\<rparr>]
          \<and> lobbies d' = lobbies d)"
| "store_change (Unban data) ru l d d' =
     (case d_user_id data of
        None \<Rightarrow> False
      | Some uid \<Rightarrow>
          Banned d (l_id l) uid
          \<and> bans d' = filter (\<lambda>b. \<not> (b_lobby b = l_id l \<and> b_user b = uid)) (bans d)
          \<and> memberships d' = memberships d \<and> lobbies d' = lobbies d)"
| "store_change (Promote data) ru l d d' =
     (case d_user_id data of
        None \<Rightarrow> False
      | Some uid \<Rightarrow>
          Member d (l_id l) uid \<and> has_role d' (l_id l) uid ''moderator''
          \<and> bans d' = bans d \<and> lobbies d' = lobbies d)"
| "store_change (Demote data) ru l d d' =
     (case d_user_id data of
        None \<Rightarrow> False
      | Some uid \<Rightarrow>
          Member d (l_id l) uid \<and> has_role d' (l_id l) uid ''member''
          \<and> bans d' = bans d \<and> lobbies d' = lobbies d)"
| "store_change (Transfer data) ru l d d' =
     (case d_user_id data of
        None \<Rightarrow> False
      | Some uid \<Rightarrow>
          Member d (l_id l) uid \<and> has_role d' (l_id l) uid ''owner''
          \<and> (l_owner l \<noteq> uid \<longrightarrow> has_role d' (l_id l) (l_owner l) ''member'')
          \<and> lobbies d' = map (\<lambda>r. if l_id r = l_id l then l\<lparr>l_owner := uid\<rparr> else r) (lobbies d)
          \<and> bans d' = bans d)"
| "store_change Start ru l d d' =
     (lobbies d' = map (\<lambda>r. if l_id r = l_id l then l\<lparr>l_status := ''in_game''\<rparr> else r) (lobbies d)
      \<and> memberships d' = memberships d \<and> bans d' = bans d)"
| "store_change CloseLobby ru l d d' =
     (lobbies d' = map (\<lambda>r. if l_id r = l_id l then l\<lparr>l_status := ''closed''\<rparr> else r) (lobbies d)
      \<and> memberships d' = memberships d \<and> bans d' = bans d)"

section \<open>Sample data\<close>

text \<open>
  The lobby of the model tests (\<open>tests.py\<close>, \<open>test_lobby_can_join\<close>): two places, the
  premium owner and a normal user.
\<close>

definition alice :: user where
  "alice = \<lparr>u_id = 1, u_username = ''alice'', u_is_premium = True\<rparr>"

definition bob :: user where
  "bob = \<lparr>u_id = 2, u_username = ''bob'', u_is_premium = False\<rparr>"

definition carol :: user where
  "carol = \<lparr>u_id = 3, u_username = ''carol'', u_is_premium = False\<rparr>"

definition lobby1 :: lobby where
  "lobby1 = \<lparr>l_id = 1, l_name = ''Test'', l_owner = 1, l_is_public = True,
             l_status = ''open'', l_max_participants = 2\<rparr>"

definition owner_row :: lobby_membership where
  "owner_row = \<lparr>m_user = 1, m_lobby = 1, m_role = ''owner''\<rparr>"

definition bob_row :: lobby_membership where
  "bob_row = \<lparr>m_user = 2, m_lobby = 1, m_role = ''member''\<rparr>"

definition carol_ban :: lobby_ban where
  "carol_ban = \<lparr>b_lobby = 1, b_user = 3, b_reason = [], b_banned_by = Some 1\<rparr>"

definition db1 :: db where
  "db1 = \<lparr>users = [alice, bob, carol], lobbies = [lobby1], memberships = [owner_row],
          bans = [], messages = [], events = [], message_seq = 0\<rparr>"

definition db2 :: db where
  "db2 = db1\<lparr>memberships := [owner_row, bob_row]\<rparr>"

definition db_full_banned :: db where
  "db_full_banned = db1\<lparr>memberships := [owner_row, bob_row], bans := [carol_ban]\<rparr>"

definition ban_bob :: mod_data where
  "ban_bob = \<lparr>d_user_id = Some 2, d_reason = Some ''spam''\<rparr>"

definition ban_carol :: mod_data where
  "ban_carol = \<lparr>d_user_id = Some 3, d_reason = None\<rparr>"

definition bob_session :: consumer where
  "bob_session = \<lparr>c_channel_name = 1, c_lobby_id = 1, c_lobby_group_name = 1,
                  c_user = AuthUser bob, c_lobby = Some lobby1\<rparr>"

text \<open>The text " Hi" followed by a newline, as code points.\<close>

definition text_hi :: pystr where
  "text_hi = [32, 72, 105, 10]"

definition carol_session :: consumer where
  "carol_session = \<lparr>c_channel_name = 3, c_lobby_id = 1, c_lobby_group_name = 1,
                    c_user = AuthUser carol, c_lobby = Some lobby1\<rparr>"

text \<open>The world after three accepted messages of the sample member at time 0.\<close>

definition busy_world :: world where
  "busy_world = snd (check_rate_limits (initial_world db2) bob_session [0, 0, 0])"

text \<open>The sample lobby with two sessions in its group, and a ban of the sample member.\<close>

definition lobby_world :: world where
  "lobby_world = (initial_world db2)\<lparr>groups := (\<lambda>g. [])(1 := [1, 3])\<rparr>"

definition ban_bob_event :: event where
  "ban_bob_event = ModerationBan 2 (Some ''bob'') (Some ''spam'')"


definition accepted_join :: "world \<times> consumer" where
  "accepted_join = connect (initial_world db1) 0 1 1 (AuthUser bob)"


text \<open>
  One user with two connections to the sample lobby: the first join, the second join on
  another channel a microsecond later, and the state after the first connection has gone.
\<close>

definition second_join :: "world \<times> consumer" where
  "second_join = connect (fst accepted_join) 1 2 1 (AuthUser bob)"

definition one_session :: system where
  "one_session = \<lparr>sys_world = fst accepted_join,
                  sessions = (\<lambda>ch. None)(1 \<mapsto> snd accepted_join), abandoned = [], clock = 0\<rparr>"

definition two_sessions :: system where
  "two_sessions = \<lparr>sys_world = fst second_join,
                   sessions = (\<lambda>ch. None)(1 \<mapsto> snd accepted_join, 2 \<mapsto> snd second_join),
                   abandoned = [], clock = 1\<rparr>"

definition one_left :: system where
  "one_left = end_session two_sessions 2 1 (snd accepted_join) (Disconnected 1000)"

text \<open>
  The single session of the sample user after a binary frame, a microsecond after the
  join; and a join to a lobby that does not exist.
\<close>

definition binary_sent :: system where
  "binary_sent = end_session one_session 1 1 (snd accepted_join) (Raised TypeError)"


lemmas sample_defs = alice_def bob_def carol_def lobby1_def owner_row_def bob_row_def
  carol_ban_def db1_def db2_def db_full_banned_def

section \<open>Join admission\<close>

lemma exists_bans_iff:
  "exists_qs (filter (\<lambda>b. b_user b = u_id u) (lobby_bans d l)) = Banned d (l_id l) (u_id u)"
  by (auto simp: exists_qs_def lobby_bans_def Banned_def filter_empty_conv)

lemma exists_memberships_iff:
  "exists_qs (filter (\<lambda>m. m_user m = u_id u) (lobby_memberships d l)) = Member d (l_id l) (u_id u)"
  by (auto simp: exists_qs_def lobby_memberships_def Member_def filter_empty_conv)

lemma is_full_iff:
  "is_full d l = (\<not> member_count d (l_id l) < l_max_participants l)"
  by (auto simp: is_full_def current_participants_count_def count_qs_def
      lobby_memberships_def member_count_def)

text \<open>
  C1. \<open>can_join\<close> allows exactly when the lobby is open, the membership count is strictly
  below \<open>max_participants\<close>, no ban row and no membership row exists for the pair; and the
  reason reported on a denial is the one of the first check that fails, in the order
  not-open, full, banned, already-a-member.
\<close>

theorem can_join_admission:
  "(fst (can_join d l u) \<longleftrightarrow>
      l_status l = ''open'' \<and> member_count d (l_id l) < l_max_participants l
      \<and> \<not> Banned d (l_id l) (u_id u) \<and> \<not> Member d (l_id l) (u_id u))
   \<and> (l_status l \<noteq> ''open'' \<longrightarrow> can_join d l u = (False, ''Lobby is not open''))
   \<and> (l_status l = ''open'' \<and> \<not> member_count d (l_id l) < l_max_participants l
        \<longrightarrow> can_join d l u = (False, ''Lobby is full''))
   \<and> (l_status l = ''open'' \<and> member_count d (l_id l) < l_max_participants l
        \<and> Banned d (l_id l) (u_id u)
        \<longrightarrow> can_join d l u = (False, ''You are banned from this lobby''))
   \<and> (l_status l = ''open'' \<and> member_count d (l_id l) < l_max_participants l
        \<and> \<not> Banned d (l_id l) (u_id u) \<and> Member d (l_id l) (u_id u)
        \<longrightarrow> can_join d l u = (False, ''Already in lobby''))"
  unfolding can_join_def exists_bans_iff exists_memberships_iff is_full_iff
  by simp

text \<open>
  The theorem at the sample lobby: a free place is granted; a full lobby reports "full"
  to a banned user; a closed one reports "not open" first; with room, the ban is
  reported, and to a member without a ban the membership.
\<close>

theorem can_join_admission_witness:
  "fst (can_join db1 lobby1 bob)
   \<and> can_join db_full_banned lobby1 carol = (False, ''Lobby is full'')
   \<and> can_join db_full_banned (lobby1\<lparr>l_status := ''closed''\<rparr>) carol
        = (False, ''Lobby is not open'')
   \<and> can_join db_full_banned (lobby1\<lparr>l_max_participants := 8\<rparr>) carol
        = (False, ''You are banned from this lobby'')
   \<and> can_join db_full_banned (lobby1\<lparr>l_max_participants := 8\<rparr>) bob
        = (False, ''Already in lobby'')"
  using can_join_admission [where d = db1 and l = lobby1 and u = bob]
    can_join_admission [where d = db_full_banned and l = lobby1 and u = carol]
    can_join_admission [where d = db_full_banned and l = "lobby1\<lparr>l_status := ''closed''\<rparr>"
      and u = carol]
    can_join_admission [where d = db_full_banned and l = "lobby1\<lparr>l_max_participants := 8\<rparr>"
      and u = carol]
    can_join_admission [where d = db_full_banned and l = "lobby1\<lparr>l_max_participants := 8\<rparr>"
      and u = bob]
  by (simp add: sample_defs Banned_def Member_def member_count_def)

section \<open>Leaving a lobby\<close>

lemma find_key_unique:
  "distinct (map key xs) \<Longrightarrow> x \<in> set xs \<Longrightarrow> find (\<lambda>y. key y = key x) xs = Some x"
  by (induction xs) (auto simp: rev_image_eqI)

lemma get_membership_unique:
  assumes "unique_memberships d" and "m \<in> set (memberships d)"
  shows "get_membership d (m_user m) (m_lobby m) = Some m"
proof -
  have "find (\<lambda>y. (m_user y, m_lobby y) = (m_user m, m_lobby m)) (memberships d) = Some m"
    using assms find_key_unique [where key = "\<lambda>m. (m_user m, m_lobby m)"]
    by (simp add: unique_memberships_def)
  then show ?thesis by (simp add: get_membership_def)
qed

lemma get_membership_Some:
  "get_membership d uid lid = Some m \<Longrightarrow> m \<in> set (memberships d) \<and> m_user m = uid \<and> m_lobby m = lid"
  by (auto simp: get_membership_def find_Some_iff)

lemma Member_delete_membership:
  "\<not> Member (delete_membership d m) (m_lobby m) (m_user m)"
  by (auto simp: Member_def delete_membership_def same_membership_def)

lemma Member_create_event [simp]: "Member (create_event d ev) lid uid = Member d lid uid"
  by (simp add: Member_def create_event_def)

lemma memberships_create_event [simp]: "memberships (create_event d ev) = memberships d"
  by (simp add: create_event_def)

text \<open>
  C10. A user whose membership row in the lobby has the role \<open>owner\<close> gets an error from
  \<open>leave\<close> and the store is left as it was; a member of another role leaves, and that
  deletes the rows of the pair; \<open>leave\<close> changes the membership table only for a
  requester who has a row whose role is not \<open>owner\<close>, and every refusal leaves the store
  unchanged.
\<close>

theorem leave_owner_refused:
  "(unique_memberships d \<and> m \<in> set (memberships d) \<and> m_user m = u_id ru \<and> m_lobby m = l_id l
      \<and> m_role m = ''owner''
      \<longrightarrow> leave d ru l
            = (Response (Error ''Owner cannot leave lobby. Transfer ownership first.'') 400, d))
   \<and> (unique_memberships d \<and> m \<in> set (memberships d) \<and> m_user m = u_id ru \<and> m_lobby m = l_id l
      \<and> m_role m \<noteq> ''owner''
      \<longrightarrow> status_code (fst (leave d ru l)) = 200
          \<and> memberships (snd (leave d ru l))
              = filter (\<lambda>r. \<not> (m_user r = u_id ru \<and> m_lobby r = l_id l)) (memberships d))
   \<and> (memberships (snd (leave d ru l)) \<noteq> memberships d
      \<longrightarrow> (\<exists>r \<in> set (memberships d). m_user r = u_id ru \<and> m_lobby r = l_id l \<and> m_role r \<noteq> ''owner'')
          \<and> \<not> Member (snd (leave d ru l)) (l_id l) (u_id ru))
   \<and> (status_code (fst (leave d ru l)) \<noteq> 200 \<longrightarrow> snd (leave d ru l) = d)"
proof (intro conjI impI)
  assume a: "unique_memberships d \<and> m \<in> set (memberships d) \<and> m_user m = u_id ru
    \<and> m_lobby m = l_id l \<and> m_role m = ''owner''"
  then have "get_membership d (u_id ru) (l_id l) = Some m"
    using get_membership_unique [of d m] by simp
  with a show "leave d ru l
      = (Response (Error ''Owner cannot leave lobby. Transfer ownership first.'') 400, d)"
    by (simp add: leave_def)
next
  assume a: "unique_memberships d \<and> m \<in> set (memberships d) \<and> m_user m = u_id ru
    \<and> m_lobby m = l_id l \<and> m_role m \<noteq> ''owner''"
  then have g: "get_membership d (u_id ru) (l_id l) = Some m"
    using get_membership_unique [of d m] by simp
  with a show "status_code (fst (leave d ru l)) = 200"
    by (simp add: leave_def Let_def)
  from g a show "memberships (snd (leave d ru l))
      = filter (\<lambda>r. \<not> (m_user r = u_id ru \<and> m_lobby r = l_id l)) (memberships d)"
    by (simp add: leave_def Let_def delete_membership_def same_membership_def)
next
  assume ch: "memberships (snd (leave d ru l)) \<noteq> memberships d"
  then obtain r where g: "get_membership d (u_id ru) (l_id l) = Some r" and ro: "m_role r \<noteq> ''owner''"
    by (auto simp: leave_def split: option.splits if_splits)
  from get_membership_Some [OF g] ro
  show "\<exists>r \<in> set (memberships d). m_user r = u_id ru \<and> m_lobby r = l_id l \<and> m_role r \<noteq> ''owner''"
    by blast
  from get_membership_Some [OF g] have k: "m_user r = u_id ru" "m_lobby r = l_id l" by simp_all
  show "\<not> Member (snd (leave d ru l)) (l_id l) (u_id ru)"
    using g ro Member_delete_membership [of d r] by (simp add: leave_def Let_def k)
next
  assume "status_code (fst (leave d ru l)) \<noteq> 200"
  then show "snd (leave d ru l) = d"
    by (auto simp: leave_def Let_def split: option.splits if_splits)
qed

text \<open>
  At the sample lobby: the owner is refused and nothing changes, the member leaves and
  only the owner's row stays, and a user without a row is refused.
\<close>

theorem leave_owner_refused_witness:
  "leave db2 alice lobby1
     = (Response (Error ''Owner cannot leave lobby. Transfer ownership first.'') 400, db2)
   \<and> status_code (fst (leave db2 bob lobby1)) = 200
   \<and> memberships (snd (leave db2 bob lobby1)) = [owner_row]
   \<and> \<not> Member (snd (leave db2 bob lobby1)) 1 2
   \<and> snd (leave db2 carol lobby1) = db2"
proof -
  have u: "unique_memberships db2"
    by (simp add: unique_memberships_def sample_defs)
  have c: "status_code (fst (leave db2 carol lobby1)) \<noteq> 200"
    by (simp add: leave_def get_membership_def sample_defs)
  show ?thesis
    using leave_owner_refused [where d = db2 and m = owner_row and ru = alice and l = lobby1]
      leave_owner_refused [where d = db2 and m = bob_row and ru = bob and l = lobby1]
      leave_owner_refused [where d = db2 and m = bob_row and ru = carol and l = lobby1] u c
    by (simp add: sample_defs)
qed

section \<open>Banning\<close>

lemma user_by_id_Some: "user_by_id d i = Some u \<Longrightarrow> u_id u = i"
  by (auto simp: user_by_id_def find_Some_iff)

lemma get_ban_None_iff: "get_ban d lid uid = None \<longleftrightarrow> \<not> Banned d lid uid"
  by (auto simp: get_ban_def Banned_def find_None_iff)

lemma reason_serializer_Some:
  "reason_serializer d data = Some (uid, r) \<Longrightarrow> d_user_id data = Some uid \<and> user_by_id d uid \<noteq> None"
  by (auto simp: reason_serializer_def split: option.splits if_splits)

text \<open>The outcome of \<open>ban\<close> once the request is valid and the target is not the owner.\<close>

lemma ban_valid:
  assumes v: "reason_serializer d data = Some (uid, r)" and u: "user_by_id d uid = Some u"
    and o: "l_owner l \<noteq> uid"
  shows "ban d ru l data =
    (let d1 = d\<lparr>memberships :=
                 filter (\<lambda>m. \<not> (m_user m = uid \<and> m_lobby m = l_id l)) (memberships d)\<rparr>
     in if Banned d (l_id l) uid then (Response (Error ''User already banned'') 400, d1)
        else (Response (Message (''User '' @ u_username u @ '' banned successfully'')) 200,
              create_event
                (d1\<lparr>bans := bans d @
                     [\<lparr>b_lobby = l_id l, b_user = uid,
                       b_reason = (case r of None \<Rightarrow> [] | Some x \<Rightarrow> x),
                       b_banned_by = Some (u_id ru)\<rparr>]\<rparr>)
                \<lparr>e_lobby = l_id l, e_event_type = ''ban'', e_actor = Some (u_id ru),
                 e_target = Some uid,
                 e_description = u_username u @ '' banned from lobby. Reason: ''
                    @ (case r of None \<Rightarrow> [] | Some x \<Rightarrow> x),
                 e_metadata = [(''reason'', (case r of None \<Rightarrow> [] | Some x \<Rightarrow> x))]\<rparr>))"
proof -
  have i: "u_id u = uid" using u by (rule user_by_id_Some)
  have b: "get_ban (d\<lparr>memberships := ms\<rparr>) lid x = get_ban d lid x" for ms lid x
    by (simp add: get_ban_def)
  show ?thesis
  proof (cases "Banned d (l_id l) uid")
    case True
    then obtain row where "get_ban d (l_id l) uid = Some row"
      using get_ban_None_iff [of d "l_id l" uid] by (cases "get_ban d (l_id l) uid") auto
    with True show ?thesis using v u o i by (simp add: ban_def Let_def b)
  next
    case False
    then have "get_ban d (l_id l) uid = None" by (simp add: get_ban_None_iff)
    with False show ?thesis using v u o i by (simp add: ban_def Let_def b)
  qed
qed

lemma ban_invalid:
  assumes "\<not> (\<exists>uid r u. reason_serializer d data = Some (uid, r) \<and> user_by_id d uid = Some u
           \<and> l_owner l \<noteq> uid)"
  shows "snd (ban d ru l data) = d \<and> status_code (fst (ban d ru l data)) \<noteq> 200"
proof (cases "reason_serializer d data")
  case None
  then show ?thesis by (simp add: ban_def)
next
  case (Some p)
  obtain uid r where p: "p = (uid, r)" by (cases p)
  show ?thesis
  proof (cases "user_by_id d uid")
    case None
    then show ?thesis using Some p by (simp add: ban_def)
  next
    case u: (Some u)
    then have "l_owner l = uid" using assms Some p by auto
    moreover have "u_id u = uid" using u by (rule user_by_id_Some)
    ultimately show ?thesis using Some p u by (simp add: ban_def)
  qed
qed

lemma ban_success_valid:
  assumes "status_code (fst (ban d ru l data)) = 200"
  shows "\<exists>uid r u. reason_serializer d data = Some (uid, r) \<and> user_by_id d uid = Some u
           \<and> l_owner l \<noteq> uid"
  using assms ban_invalid [of d data l ru] by blast

text \<open>
  C9. A \<open>ban\<close> that answers 200 has deleted the membership rows of the target in the lobby
  and then added one ban row for the pair: afterwards the target is banned and is no
  member, and was not banned before. When the target is already banned, the answer is an
  error (\<open>User already banned\<close> for a valid request that does not name the owner) and the
  ban table is left as it was.
\<close>

theorem ban_removes_membership:
  "(status_code (fst (ban d ru l data)) = 200 \<longrightarrow>
      (\<exists>uid. d_user_id data = Some uid
         \<and> \<not> Banned d (l_id l) uid
         \<and> memberships (snd (ban d ru l data))
             = filter (\<lambda>m. \<not> (m_user m = uid \<and> m_lobby m = l_id l)) (memberships d)
         \<and> (\<exists>row. bans (snd (ban d ru l data)) = bans d @ [row]
                \<and> b_lobby row = l_id l \<and> b_user row = uid)
         \<and> Banned (snd (ban d ru l data)) (l_id l) uid
         \<and> \<not> Member (snd (ban d ru l data)) (l_id l) uid))
   \<and> (d_user_id data = Some uid \<and> Banned d (l_id l) uid \<longrightarrow>
        status_code (fst (ban d ru l data)) \<noteq> 200
        \<and> bans (snd (ban d ru l data)) = bans d)
   \<and> (reason_serializer d data = Some (uid, r) \<and> l_owner l \<noteq> uid \<and> Banned d (l_id l) uid \<longrightarrow>
        fst (ban d ru l data) = Response (Error ''User already banned'') 400)"
proof (intro conjI impI)
  assume ok: "status_code (fst (ban d ru l data)) = 200"
  from ban_success_valid [OF ok] obtain x rx ux where
    v: "reason_serializer d data = Some (x, rx)" and u: "user_by_id d x = Some ux"
    and o: "l_owner l \<noteq> x" by blast
  note eq = ban_valid [OF v u o]
  have nb: "\<not> Banned d (l_id l) x" using ok eq by (auto simp: Let_def)
  have dx: "d_user_id data = Some x" using reason_serializer_Some [OF v] by simp
  show "\<exists>uid. d_user_id data = Some uid
         \<and> \<not> Banned d (l_id l) uid
         \<and> memberships (snd (ban d ru l data))
             = filter (\<lambda>m. \<not> (m_user m = uid \<and> m_lobby m = l_id l)) (memberships d)
         \<and> (\<exists>row. bans (snd (ban d ru l data)) = bans d @ [row]
                \<and> b_lobby row = l_id l \<and> b_user row = uid)
         \<and> Banned (snd (ban d ru l data)) (l_id l) uid
         \<and> \<not> Member (snd (ban d ru l data)) (l_id l) uid"
    using nb dx by (intro exI [of _ x]) (auto simp: eq Let_def create_event_def Banned_def Member_def)
next
  assume a: "d_user_id data = Some uid \<and> Banned d (l_id l) uid"
  show "status_code (fst (ban d ru l data)) \<noteq> 200"
  proof
    assume ok: "status_code (fst (ban d ru l data)) = 200"
    from ban_success_valid [OF ok] obtain x rx ux where
      v: "reason_serializer d data = Some (x, rx)" and u: "user_by_id d x = Some ux"
      and o: "l_owner l \<noteq> x" by blast
    have "x = uid" using reason_serializer_Some [OF v] a by simp
    with ok a show False using ban_valid [OF v u o] by (simp add: Let_def)
  qed
  show "bans (snd (ban d ru l data)) = bans d"
  proof (cases "\<exists>x rx ux. reason_serializer d data = Some (x, rx) \<and> user_by_id d x = Some ux
      \<and> l_owner l \<noteq> x")
    case True
    then obtain x rx ux where
      v: "reason_serializer d data = Some (x, rx)" and u: "user_by_id d x = Some ux"
      and o: "l_owner l \<noteq> x" by blast
    have "x = uid" using reason_serializer_Some [OF v] a by simp
    with a show ?thesis using ban_valid [OF v u o] by (simp add: Let_def)
  next
    case False
    then show ?thesis using ban_invalid [of d data l ru] by simp
  qed
next
  assume a: "reason_serializer d data = Some (uid, r) \<and> l_owner l \<noteq> uid \<and> Banned d (l_id l) uid"
  then obtain u where u: "user_by_id d uid = Some u"
    using reason_serializer_Some [of d data uid r] by auto
  from a show "fst (ban d ru l data) = Response (Error ''User already banned'') 400"
    using ban_valid [OF _ u, of data r l ru] by (simp add: Let_def)
qed

text \<open>
  At the sample lobby: the owner bans the member, whose row goes and whose ban appears;
  banning the banned user again is refused and adds no row.
\<close>

theorem ban_removes_membership_witness:
  "status_code (fst (ban db2 alice lobby1 ban_bob)) = 200
   \<and> memberships (snd (ban db2 alice lobby1 ban_bob)) = [owner_row]
   \<and> Banned (snd (ban db2 alice lobby1 ban_bob)) 1 2
   \<and> \<not> Member (snd (ban db2 alice lobby1 ban_bob)) 1 2
   \<and> fst (ban db_full_banned alice lobby1 ban_carol) = Response (Error ''User already banned'') 400
   \<and> bans (snd (ban db_full_banned alice lobby1 ban_carol)) = [carol_ban]"
proof -
  have s: "status_code (fst (ban db2 alice lobby1 ban_bob)) = 200"
    by (simp add: ban_def reason_serializer_def user_by_id_def get_ban_def Let_def
        sample_defs ban_bob_def)
  have v: "reason_serializer db_full_banned ban_carol = Some (3, None)"
    by (simp add: reason_serializer_def user_by_id_def sample_defs ban_carol_def)
  have b: "Banned db_full_banned 1 3"
    by (simp add: Banned_def sample_defs)
  have l: "l_id lobby1 = 1" "l_owner lobby1 = 1"
    by (simp_all add: lobby1_def)
  note t = ban_removes_membership [where d = db2 and ru = alice and l = lobby1
      and data = ban_bob and uid = 2 and r = None]
  from t s obtain uid where u: "d_user_id ban_bob = Some uid"
    and m: "memberships (snd (ban db2 alice lobby1 ban_bob))
             = filter (\<lambda>m. \<not> (m_user m = uid \<and> m_lobby m = l_id lobby1)) (memberships db2)"
    and bd: "Banned (snd (ban db2 alice lobby1 ban_bob)) (l_id lobby1) uid"
    and nm: "\<not> Member (snd (ban db2 alice lobby1 ban_bob)) (l_id lobby1) uid"
    by blast
  from u have uid: "uid = 2" by (simp add: ban_bob_def)
  have m': "memberships (snd (ban db2 alice lobby1 ban_bob)) = [owner_row]"
    unfolding m uid l by (simp add: db2_def db1_def owner_row_def bob_row_def)
  note t' = ban_removes_membership [where d = db_full_banned and ru = alice and l = lobby1
      and data = ban_carol and uid = 3 and r = None]
  have d3: "d_user_id ban_carol = Some 3" by (simp add: ban_carol_def)
  from t' v b d3 l have e: "fst (ban db_full_banned alice lobby1 ban_carol)
      = Response (Error ''User already banned'') 400"
    and bb: "bans (snd (ban db_full_banned alice lobby1 ban_carol)) = bans db_full_banned"
    by simp_all
  have "bans db_full_banned = [carol_ban]" by (simp add: db_full_banned_def db1_def)
  with s m' bd nm e bb show ?thesis by (simp add: uid l)
qed

section \<open>Rate limiting\<close>

lemma rate_get_rate_set:
  "rate_get (rate_set w now k v timeout) now' k' =
     (if k' = k then (if now' < now + seconds timeout then v else []) else rate_get w now' k')"
  by (simp add: rate_get_def rate_set_def emit_def)

lemma check_rate_limit_accept:
  "length (fresh_stamps w now self) < 3 \<Longrightarrow>
   check_rate_limit w now self
     = (True, rate_set w now (rate_key self) (fresh_stamps w now self @ [now]) 10)"
  by (simp add: check_rate_limit_def fresh_stamps_def rate_key_def Let_def)

lemma check_rate_limit_reject:
  "\<not> length (fresh_stamps w now self) < 3 \<Longrightarrow> check_rate_limit w now self = (False, w)"
  by (simp add: check_rate_limit_def fresh_stamps_def rate_key_def Let_def)

lemma fresh_stamps_rate_set:
  "fresh_stamps (rate_set w now (rate_key self) v 10) now' self =
     (if now' < now + seconds 10 then filter (\<lambda>t. now' - seconds 2 < t) v else [])"
  by (simp add: fresh_stamps_def rate_get_rate_set)

lemma five_calls:
  assumes e: "fresh_stamps w t1 self = []"
    and o: "t1 \<le> t2" "t2 \<le> t3" "t3 \<le> t4" "t4 \<le> t5"
    and i: "t4 < t1 + seconds 2" and a: "t1 + seconds 2 \<le> t5"
  shows "fst (check_rate_limits w self [t1, t2, t3, t4, t5]) = [True, True, True, False, True]"
proof -
  define k where "k = rate_key self"
  define w1 where "w1 = rate_set w t1 k [t1] 10"
  define w2 where "w2 = rate_set w1 t2 k [t1, t2] 10"
  define w3 where "w3 = rate_set w2 t3 k [t1, t2, t3] 10"
  have c1: "check_rate_limit w t1 self = (True, w1)"
    using check_rate_limit_accept [of w t1 self] e by (simp add: w1_def k_def)
  have f1: "fresh_stamps w1 t2 self = [t1]"
    using o i by (simp add: w1_def k_def fresh_stamps_rate_set seconds_def)
  have c2: "check_rate_limit w1 t2 self = (True, w2)"
    using check_rate_limit_accept [of w1 t2 self] f1 by (simp add: w2_def k_def)
  have f2: "fresh_stamps w2 t3 self = [t1, t2]"
    using o i by (simp add: w2_def k_def fresh_stamps_rate_set seconds_def)
  have c3: "check_rate_limit w2 t3 self = (True, w3)"
    using check_rate_limit_accept [of w2 t3 self] f2 by (simp add: w3_def k_def)
  have f3: "fresh_stamps w3 t4 self = [t1, t2, t3]"
    using o i by (simp add: w3_def k_def fresh_stamps_rate_set seconds_def)
  have c4: "check_rate_limit w3 t4 self = (False, w3)"
    using check_rate_limit_reject [of w3 t4 self] f3 by simp
  have f4: "length (fresh_stamps w3 t5 self) < 3"
    using o a by (simp add: w3_def k_def fresh_stamps_rate_set seconds_def)
  obtain w5 where c5: "check_rate_limit w3 t5 self = (True, w5)"
    using check_rate_limit_accept [of w3 t5 self] f4 by simp
  show ?thesis
    by (simp add: c1 c2 c3 c4 c5)
qed

text \<open>
  C4, as the code has it. The check counts the stored timestamps strictly newer than
  \<open>now - 2s\<close> (an entry exactly 2 seconds old is dropped too); it accepts iff fewer than
  3 are left, and then the key holds those followed by \<open>now\<close> for the next 10 seconds;
  a rejection changes nothing. So from a key without recent entries three calls succeed,
  a fourth less than 2 seconds after the first is rejected, and a call 2 seconds or more
  after the first succeeds again.
\<close>

theorem check_rate_limit_window:
  "(fst (check_rate_limit w now self) \<longleftrightarrow> length (fresh_stamps w now self) < 3)
   \<and> (length (fresh_stamps w now self) < 3 \<longrightarrow>
        (\<forall>now'. now \<le> now' \<and> now' < now + seconds 10 \<longrightarrow>
           rate_get (snd (check_rate_limit w now self)) now' (rate_key self)
             = fresh_stamps w now self @ [now]))
   \<and> (\<not> length (fresh_stamps w now self) < 3 \<longrightarrow> snd (check_rate_limit w now self) = w)
   \<and> (fresh_stamps w t1 self = [] \<and> t1 \<le> t2 \<and> t2 \<le> t3 \<and> t3 \<le> t4 \<and> t4 \<le> t5
        \<and> t4 < t1 + seconds 2 \<and> t1 + seconds 2 \<le> t5 \<longrightarrow>
        fst (check_rate_limits w self [t1, t2, t3, t4, t5]) = [True, True, True, False, True])"
proof (intro conjI impI allI)
  show "fst (check_rate_limit w now self) \<longleftrightarrow> length (fresh_stamps w now self) < 3"
    using check_rate_limit_accept [of w now self] check_rate_limit_reject [of w now self]
    by (cases "length (fresh_stamps w now self) < 3") simp_all
next
  fix now'
  assume "length (fresh_stamps w now self) < 3" and "now \<le> now' \<and> now' < now + seconds 10"
  then show "rate_get (snd (check_rate_limit w now self)) now' (rate_key self)
      = fresh_stamps w now self @ [now]"
    by (simp add: check_rate_limit_accept rate_get_rate_set)
next
  assume "\<not> length (fresh_stamps w now self) < 3"
  then show "snd (check_rate_limit w now self) = w"
    by (simp add: check_rate_limit_reject)
next
  assume "fresh_stamps w t1 self = [] \<and> t1 \<le> t2 \<and> t2 \<le> t3 \<and> t3 \<le> t4 \<and> t4 \<le> t5
        \<and> t4 < t1 + seconds 2 \<and> t1 + seconds 2 \<le> t5"
  then show "fst (check_rate_limits w self [t1, t2, t3, t4, t5]) = [True, True, True, False, True]"
    using five_calls [of w t1 self t2 t3 t4 t5] by simp
qed

lemma fresh_initial: "fresh_stamps (initial_world d) t self = []"
  by (simp add: fresh_stamps_def rate_get_def initial_world_def)

text \<open>
  Five calls of one user on an empty cache, the fourth 1 microsecond short of 2 seconds
  after the first and the fifth exactly 2 seconds after it.
\<close>

theorem check_rate_limit_window_witness:
  "fst (check_rate_limits (initial_world db1) bob_session
          [0, 300000, 900000, 1999999, 2000000])
     = [True, True, True, False, True]
   \<and> fst (check_rate_limit (initial_world db1) 0 bob_session)
   \<and> rate_get (snd (check_rate_limit (initial_world db1) 0 bob_session)) 5 (Some 2, 1) = [0]"
proof -
  note t = check_rate_limit_window [where w = "initial_world db1" and self = bob_session
      and now = 0 and ?t1.0 = 0 and ?t2.0 = 300000 and ?t3.0 = 900000 and ?t4.0 = 1999999
      and ?t5.0 = 2000000]
  have k: "rate_key bob_session = (Some 2, 1)"
    by (simp add: rate_key_def bob_session_def bob_def)
  from t show ?thesis
    by (simp add: fresh_initial seconds_def k)
qed

text \<open>
  The boundary on which the wording of C4 and the code part: after three accepted calls at
  time 0 the key holds \<open>[0, 0, 0]\<close>; at exactly 2 seconds none of them is older than
  \<open>now - 2s\<close>, so the worded check keeps three and rejects, while the code drops them and
  accepts.
\<close>

theorem rate_limit_boundary_counterexample:
  "rate_get (snd (check_rate_limits (initial_world db1) bob_session [0, 0, 0])) (seconds 2)
       (rate_key bob_session) = [0, 0, 0]
   \<and> fst (check_rate_limit (snd (check_rate_limits (initial_world db1) bob_session [0, 0, 0]))
            (seconds 2) bob_session)
   \<and> \<not> fst (spec_Allow [0, 0, 0] (seconds 2))"
proof -
  define w1 where "w1 = rate_set (initial_world db1) 0 (rate_key bob_session) [0] 10"
  define w2 where "w2 = rate_set w1 0 (rate_key bob_session) [0, 0] 10"
  define w3 where "w3 = rate_set w2 0 (rate_key bob_session) [0, 0, 0] 10"
  have c1: "check_rate_limit (initial_world db1) 0 bob_session = (True, w1)"
    by (simp add: check_rate_limit_accept fresh_initial w1_def)
  have c2: "check_rate_limit w1 0 bob_session = (True, w2)"
    by (simp add: check_rate_limit_accept fresh_stamps_rate_set w1_def w2_def seconds_def)
  have c3: "check_rate_limit w2 0 bob_session = (True, w3)"
    by (simp add: check_rate_limit_accept fresh_stamps_rate_set w2_def w3_def seconds_def)
  have r: "snd (check_rate_limits (initial_world db1) bob_session [0, 0, 0]) = w3"
    by (simp add: c1 c2 c3)
  have g: "rate_get w3 (seconds 2) (rate_key bob_session) = [0, 0, 0]"
    by (simp add: w3_def rate_get_rate_set seconds_def)
  have f: "fresh_stamps w3 (seconds 2) bob_session = []"
    by (simp add: w3_def fresh_stamps_rate_set seconds_def)
  have a: "fst (check_rate_limit w3 (seconds 2) bob_session)"
    by (simp add: check_rate_limit_accept f)
  have n: "\<not> fst (spec_Allow [0, 0, 0] (seconds 2))"
    by (simp add: spec_Allow_def seconds_def)
  show ?thesis unfolding r using g a n by simp
qed

section \<open>The chat hot path\<close>

lemma trace_emit [simp]: "trace (emit w e) = trace w @ [e]"
  by (simp add: emit_def)

lemma emit_fields [simp]:
  "store (emit w e) = store w" "store_fails (emit w e) = store_fails w"
  "rate_cache (emit w e) = rate_cache w" "presence_cache (emit w e) = presence_cache w"
  "groups (emit w e) = groups w" "mailbox (emit w e) = mailbox w"
  by (simp_all add: emit_def)

lemma new_effects_append [simp]: "trace w' = trace w @ es \<Longrightarrow> new_effects w w' = es"
  by (simp add: new_effects_def)

lemma is_user_member_iff:
  "c_lobby self = Some l \<Longrightarrow> is_user_member w self u = Member (store w) (l_id l) (u_id u)"
  by (auto simp: is_user_member_def exists_qs_def Member_def filter_empty_conv)

lemma check_rate_limit_frame:
  "store (snd (check_rate_limit w now self)) = store w"
  "store_fails (snd (check_rate_limit w now self)) = store_fails w"
  "mailbox (snd (check_rate_limit w now self)) = mailbox w"
  "groups (snd (check_rate_limit w now self)) = groups w"
  "presence_cache (snd (check_rate_limit w now self)) = presence_cache w"
  by (simp_all add: check_rate_limit_def Let_def rate_set_def)

lemma check_rate_limit_trace:
  "trace (snd (check_rate_limit w now self)) =
     trace w @ (if fst (check_rate_limit w now self)
                then [CacheSet (RateLimitKey (user_pk (c_user self)) (c_lobby_id self))] else [])"
  by (simp add: check_rate_limit_def Let_def rate_set_def)

text \<open>
  C5. On a joined session, an inbound \<open>chat_message\<close> whose \<open>message\<close> is a string or absent
  goes through the checks in this order, and the first that fails decides the outcome:
  empty after trimming (error frame only), longer than 2000 (error frame only), rate
  limit (error frame only), membership (error frame, then close with 4003), persistence
  (error frame \<open>Failed to save message\<close>, no close, no broadcast). Only when all pass is
  the message stored and the \<open>chat_message\<close> event sent to the group; no failing case
  sends anything to the group.
\<close>

theorem chat_message_checks:
  assumes u: "c_user self = AuthUser u" and l: "c_lobby self = Some l" and d: "data \<noteq> MsgOther"
  shows
   "(strip (message_text data) = [] \<longrightarrow>
       handle_chat_message w now self data
         = Inr (w\<lparr>trace := trace w @ [Send (c_channel_name self) (FError ''Message cannot be empty'')]\<rparr>))
    \<and> (strip (message_text data) \<noteq> [] \<and> length (strip (message_text data)) > 2000 \<longrightarrow>
       handle_chat_message w now self data
         = Inr (w\<lparr>trace := trace w @ [Send (c_channel_name self)
                                       (FError ''Message too long (max 2000 characters)'')]\<rparr>))
    \<and> (strip (message_text data) \<noteq> [] \<and> length (strip (message_text data)) \<le> 2000
         \<and> \<not> fst (check_rate_limit w now self) \<longrightarrow>
       handle_chat_message w now self data
         = Inr (w\<lparr>trace := trace w @ [Send (c_channel_name self)
                                       (FError ''Rate limit exceeded. Please slow down.'')]\<rparr>))
    \<and> (strip (message_text data) \<noteq> [] \<and> length (strip (message_text data)) \<le> 2000
         \<and> fst (check_rate_limit w now self) \<and> \<not> Member (store w) (l_id l) (u_id u) \<longrightarrow>
       (\<exists>w'. handle_chat_message w now self data = Inr w'
          \<and> new_effects w w'
              = [CacheSet (RateLimitKey (Some (u_id u)) (c_lobby_id self)),
                 Send (c_channel_name self) (FError ''You are not a member of this lobby''),
                 Close (c_channel_name self) 4003]
          \<and> store w' = store w \<and> mailbox w' = mailbox w))
    \<and> (strip (message_text data) \<noteq> [] \<and> length (strip (message_text data)) \<le> 2000
         \<and> fst (check_rate_limit w now self) \<and> Member (store w) (l_id l) (u_id u)
         \<and> store_fails w \<longrightarrow>
       (\<exists>w'. handle_chat_message w now self data = Inr w'
          \<and> new_effects w w'
              = [CacheSet (RateLimitKey (Some (u_id u)) (c_lobby_id self)),
                 Send (c_channel_name self) (FError ''Failed to save message'')]
          \<and> store w' = store w \<and> mailbox w' = mailbox w))
    \<and> (strip (message_text data) \<noteq> [] \<and> length (strip (message_text data)) \<le> 2000
         \<and> fst (check_rate_limit w now self) \<and> Member (store w) (l_id l) (u_id u)
         \<and> \<not> store_fails w \<longrightarrow>
       (\<exists>w' m. handle_chat_message w now self data = Inr w'
          \<and> new_effects w w'
              = [CacheSet (RateLimitKey (Some (u_id u)) (c_lobby_id self)),
                 GroupSend (c_lobby_group_name self)
                   (ChatMessage \<lparr>cp_id = msg_id m, cp_content = strip (message_text data),
                                 cp_sender_id = u_id u, cp_sender_username = u_username u,
                                 cp_sender_is_premium = u_is_premium u, cp_created_at = now\<rparr>)]
          \<and> messages (store w') = messages (store w) @ [m]
          \<and> msg_content m = strip (message_text data) \<and> msg_sender m = u_id u
          \<and> msg_lobby m = l_id l))"
proof -
  obtain ok w1 where c: "check_rate_limit w now self = (ok, w1)"
    by (cases "check_rate_limit w now self")
  have f: "store w1 = store w" "store_fails w1 = store_fails w" "mailbox w1 = mailbox w"
    using check_rate_limit_frame [of w now self] c by simp_all
  have t: "trace w1 = trace w @ (if ok then [CacheSet (RateLimitKey (Some (u_id u)) (c_lobby_id self))]
      else [])"
    using check_rate_limit_trace [of w now self] c u by simp
  have r: "\<not> ok \<Longrightarrow> w1 = w"
    using c by (auto simp: check_rate_limit_def Let_def split: if_splits)
  have m: "is_user_member w1 self u = Member (store w) (l_id l) (u_id u)"
    using is_user_member_iff [OF l, of w1 u] f by simp
  show ?thesis
    using d u l c f t r m
    by (cases data)
      (auto simp: handle_chat_message_def Let_def send_error_def ws_send_def ws_close_def
        emit_def save_message_def group_send_def new_effects_def)
qed

lemma three_calls_at_zero:
  "snd (check_rate_limits (initial_world d) self [0, 0, 0])
     = rate_set (rate_set (rate_set (initial_world d) 0 (rate_key self) [0] 10)
                   0 (rate_key self) [0, 0] 10) 0 (rate_key self) [0, 0, 0] 10"
proof -
  define w1 where "w1 = rate_set (initial_world d) 0 (rate_key self) [0] 10"
  define w2 where "w2 = rate_set w1 0 (rate_key self) [0, 0] 10"
  have c1: "check_rate_limit (initial_world d) 0 self = (True, w1)"
    by (simp add: check_rate_limit_accept fresh_initial w1_def)
  have c2: "check_rate_limit w1 0 self = (True, w2)"
    by (simp add: check_rate_limit_accept fresh_stamps_rate_set w1_def w2_def seconds_def)
  have c3: "check_rate_limit w2 0 self
      = (True, rate_set w2 0 (rate_key self) [0, 0, 0] 10)"
    by (simp add: check_rate_limit_accept fresh_stamps_rate_set w2_def seconds_def)
  have "snd (check_rate_limits (initial_world d) self [0, 0, 0])
      = rate_set w2 0 (rate_key self) [0, 0, 0] 10"
    by (simp add: c1 c2 c3)
  then show ?thesis
    by (simp add: w1_def w2_def)
qed

lemma strip_space_newline: "strip [32, 10] = []"
  by (simp add: strip_def isspace_def)

lemma strip_text_hi: "strip text_hi = [72, 105]"
  by (simp add: strip_def isspace_def text_hi_def)

lemma strip_long: "strip (replicate 2001 65) = replicate 2001 65"
  by (simp add: strip_def isspace_def dropWhile_replicate)

lemma bob_session_fields:
  "c_user bob_session = AuthUser bob" "c_lobby bob_session = Some lobby1"
  "c_channel_name bob_session = 1" "c_lobby_id bob_session = 1"
  "c_lobby_group_name bob_session = 1"
  by (simp_all add: bob_session_def)

lemma carol_session_fields:
  "c_user carol_session = AuthUser carol" "c_lobby carol_session = Some lobby1"
  "c_channel_name carol_session = 3" "c_lobby_id carol_session = 1"
  "c_lobby_group_name carol_session = 1"
  by (simp_all add: carol_session_def)

lemma sample_ids: "u_id bob = 2" "u_id carol = 3" "u_id alice = 1" "l_id lobby1 = 1"
  "u_username bob = ''bob''" "u_is_premium bob = False"
  by (simp_all add: sample_defs)

lemma db2_members: "Member db2 1 2" "\<not> Member db2 1 3"
  by (simp_all add: Member_def sample_defs)

lemma initial_world_fields [simp]:
  "store (initial_world d) = d" "store_fails (initial_world d) = False"
  "trace (initial_world d) = []" "mailbox (initial_world d) = (\<lambda>ch. [])"
  "groups (initial_world d) = (\<lambda>g. [])" "presence_cache (initial_world d) = (\<lambda>k. None)"
  "rate_cache (initial_world d) = (\<lambda>k. None)"
  by (simp_all add: initial_world_def)

text \<open>
  The six outcomes at the sample lobby: blank text, 2001 characters, a fourth message
  within the window, a sender without a membership row, a store that refuses the insert,
  and a message that goes through.
\<close>

theorem chat_message_checks_witness:
  "handle_chat_message (initial_world db2) 0 bob_session (MsgStr [32, 10])
     = Inr ((initial_world db2)\<lparr>trace := [Send 1 (FError ''Message cannot be empty'')]\<rparr>)
   \<and> handle_chat_message (initial_world db2) 0 bob_session (MsgStr (replicate 2001 65))
     = Inr ((initial_world db2)
              \<lparr>trace := [Send 1 (FError ''Message too long (max 2000 characters)'')]\<rparr>)
   \<and> handle_chat_message busy_world 1 bob_session (MsgStr text_hi)
     = Inr (busy_world\<lparr>trace := trace busy_world
                @ [Send 1 (FError ''Rate limit exceeded. Please slow down.'')]\<rparr>)
   \<and> (\<exists>w'. handle_chat_message (initial_world db2) 0 carol_session (MsgStr text_hi) = Inr w'
         \<and> new_effects (initial_world db2) w'
             = [CacheSet (RateLimitKey (Some 3) 1),
                Send 3 (FError ''You are not a member of this lobby''), Close 3 4003])
   \<and> (\<exists>w'. handle_chat_message ((initial_world db2)\<lparr>store_fails := True\<rparr>) 0 bob_session
               (MsgStr text_hi) = Inr w'
         \<and> new_effects ((initial_world db2)\<lparr>store_fails := True\<rparr>) w'
             = [CacheSet (RateLimitKey (Some 2) 1), Send 1 (FError ''Failed to save message'')])
   \<and> (\<exists>w' m. handle_chat_message (initial_world db2) 0 bob_session (MsgStr text_hi) = Inr w'
         \<and> new_effects (initial_world db2) w'
             = [CacheSet (RateLimitKey (Some 2) 1),
                GroupSend 1 (ChatMessage \<lparr>cp_id = msg_id m, cp_content = [72, 105],
                   cp_sender_id = 2, cp_sender_username = ''bob'',
                   cp_sender_is_premium = False, cp_created_at = 0\<rparr>)]
         \<and> messages (store w') = [m])"
proof -
  have ok: "fst (check_rate_limit (initial_world db2) 0 self)" for self
    by (simp add: check_rate_limit_accept fresh_initial)
  have ok': "fst (check_rate_limit ((initial_world db2)\<lparr>store_fails := True\<rparr>) 0 self)" for self
    by (simp add: check_rate_limit_def rate_get_def Let_def)
  have busy: "\<not> fst (check_rate_limit busy_world 1 bob_session)"
    unfolding busy_world_def three_calls_at_zero
    by (simp add: check_rate_limit_reject fresh_stamps_rate_set seconds_def)
  have ms: "messages db2 = []"
    by (simp add: sample_defs)
  note b = chat_message_checks [OF bob_session_fields(1) bob_session_fields(2)]
  note c = chat_message_checks [OF carol_session_fields(1) carol_session_fields(2)]
  have 1: "handle_chat_message (initial_world db2) 0 bob_session (MsgStr [32, 10])
     = Inr ((initial_world db2)\<lparr>trace := [Send 1 (FError ''Message cannot be empty'')]\<rparr>)"
    using b [where data = "MsgStr [32, 10]" and w = "initial_world db2" and now = 0]
    by (simp add: strip_space_newline bob_session_fields)
  have 2: "handle_chat_message (initial_world db2) 0 bob_session (MsgStr (replicate 2001 65))
     = Inr ((initial_world db2)
              \<lparr>trace := [Send 1 (FError ''Message too long (max 2000 characters)'')]\<rparr>)"
    using b [where data = "MsgStr (replicate 2001 65)" and w = "initial_world db2" and now = 0]
    by (simp add: strip_long bob_session_fields)
  have 3: "handle_chat_message busy_world 1 bob_session (MsgStr text_hi)
     = Inr (busy_world\<lparr>trace := trace busy_world
                @ [Send 1 (FError ''Rate limit exceeded. Please slow down.'')]\<rparr>)"
    using b [where data = "MsgStr text_hi" and w = busy_world and now = 1] busy
    by (simp add: strip_text_hi bob_session_fields)
  have 4: "\<exists>w'. handle_chat_message (initial_world db2) 0 carol_session (MsgStr text_hi) = Inr w'
         \<and> new_effects (initial_world db2) w'
             = [CacheSet (RateLimitKey (Some 3) 1),
                Send 3 (FError ''You are not a member of this lobby''), Close 3 4003]"
    using c [where data = "MsgStr text_hi" and w = "initial_world db2" and now = 0]
      ok [of carol_session] db2_members
    by (simp add: strip_text_hi carol_session_fields sample_ids) blast
  have 5: "\<exists>w'. handle_chat_message ((initial_world db2)\<lparr>store_fails := True\<rparr>) 0 bob_session
               (MsgStr text_hi) = Inr w'
         \<and> new_effects ((initial_world db2)\<lparr>store_fails := True\<rparr>) w'
             = [CacheSet (RateLimitKey (Some 2) 1), Send 1 (FError ''Failed to save message'')]"
    using b [where data = "MsgStr text_hi" and w = "(initial_world db2)\<lparr>store_fails := True\<rparr>"
        and now = 0] ok' [of bob_session] db2_members
    by (simp add: strip_text_hi bob_session_fields sample_ids) blast
  have 6: "\<exists>w' m. handle_chat_message (initial_world db2) 0 bob_session (MsgStr text_hi) = Inr w'
         \<and> new_effects (initial_world db2) w'
             = [CacheSet (RateLimitKey (Some 2) 1),
                GroupSend 1 (ChatMessage \<lparr>cp_id = msg_id m, cp_content = [72, 105],
                   cp_sender_id = 2, cp_sender_username = ''bob'',
                   cp_sender_is_premium = False, cp_created_at = 0\<rparr>)]
         \<and> messages (store w') = [m]"
    using b [where data = "MsgStr text_hi" and w = "initial_world db2" and now = 0]
      ok [of bob_session] db2_members
    by (simp add: strip_text_hi bob_session_fields sample_ids ms) blast
  from 1 2 3 4 5 6 show ?thesis by blast
qed

section \<open>Moderation events on live sessions\<close>

lemma mailbox_group_send:
  "mailbox (group_send w g ev) ch
     = (if ch \<in> set (groups w g) then mailbox w ch @ [ev] else mailbox w ch)"
  by (simp add: group_send_def)

lemma trace_group_send [simp]: "trace (group_send w g ev) = trace w @ [GroupSend g ev]"
  by (simp add: group_send_def)

lemma new_effects_moderation_kick:
  "new_effects w (moderation_kick w self U tu r)
     = (if user_pk (c_user self) = Some U
        then [Send (c_channel_name self)
                (FModerationKickTarget (get_or_empty r) ''You have been kicked from the lobby''),
              Close (c_channel_name self) 4003]
        else [Send (c_channel_name self)
                (FModerationKickInfo U (get_or_empty tu) (get_or_empty r))])"
  by (auto simp: moderation_kick_def ws_send_def ws_close_def)

lemma new_effects_moderation_ban:
  "new_effects w (moderation_ban w self U tu r)
     = (if user_pk (c_user self) = Some U
        then [Send (c_channel_name self)
                (FModerationBanTarget (get_or_empty r) ''You have been banned from the lobby''),
              Close (c_channel_name self) 4003]
        else [Send (c_channel_name self)
                (FModerationBanInfo U (get_or_empty tu) (get_or_empty r))])"
  by (auto simp: moderation_ban_def ws_send_def ws_close_def)

text \<open>
  C2. A \<open>moderation_kick\<close> or \<open>moderation_ban\<close> event sent to the group is queued for every
  channel of the group and for no other. A session whose user is the target handles it by
  sending the event to its client and then closing with code 4003; a session of any other
  user sends the informational frame and does not close.
\<close>

theorem moderation_delivery:
  "(ev = ModerationKick U tu r \<or> ev = ModerationBan U tu r \<longrightarrow>
      (\<forall>ch. mailbox (group_send w g ev) ch
              = (if ch \<in> set (groups w g) then mailbox w ch @ [ev] else mailbox w ch)))
   \<and> (user_pk (c_user self) = Some U \<longrightarrow>
        new_effects w' (dispatch w' self (ModerationKick U tu r))
          = [Send (c_channel_name self)
               (FModerationKickTarget (get_or_empty r) ''You have been kicked from the lobby''),
             Close (c_channel_name self) 4003]
        \<and> new_effects w' (dispatch w' self (ModerationBan U tu r))
          = [Send (c_channel_name self)
               (FModerationBanTarget (get_or_empty r) ''You have been banned from the lobby''),
             Close (c_channel_name self) 4003])
   \<and> (user_pk (c_user self) \<noteq> Some U \<longrightarrow>
        new_effects w' (dispatch w' self (ModerationKick U tu r))
          = [Send (c_channel_name self)
               (FModerationKickInfo U (get_or_empty tu) (get_or_empty r))]
        \<and> new_effects w' (dispatch w' self (ModerationBan U tu r))
          = [Send (c_channel_name self)
               (FModerationBanInfo U (get_or_empty tu) (get_or_empty r))])"
  by (simp add: mailbox_group_send new_effects_moderation_kick new_effects_moderation_ban)

lemma deliver_after_group_send:
  assumes "c_channel_name self \<in> set (groups w g)" and "mailbox w (c_channel_name self) = []"
  shows "deliver (group_send w g ev) self
     = dispatch ((group_send w g ev)\<lparr>mailbox := (mailbox (group_send w g ev))
                                          (c_channel_name self := [])\<rparr>) self ev"
  using assms by (simp add: deliver_def mailbox_group_send)

text \<open>
  The ban of the sample member sent to the group of two sessions: both queues get the
  event; the member's session sends and closes, the other session only informs.
\<close>

theorem moderation_delivery_witness:
  "mailbox (group_send lobby_world 1 ban_bob_event) 1 = [ban_bob_event]
   \<and> mailbox (group_send lobby_world 1 ban_bob_event) 3 = [ban_bob_event]
   \<and> mailbox (group_send lobby_world 1 ban_bob_event) 2 = []
   \<and> new_effects lobby_world (deliver (group_send lobby_world 1 ban_bob_event) bob_session)
       = [GroupSend 1 ban_bob_event,
          Send 1 (FModerationBanTarget ''spam'' ''You have been banned from the lobby''),
          Close 1 4003]
   \<and> new_effects lobby_world (deliver (group_send lobby_world 1 ban_bob_event) carol_session)
       = [GroupSend 1 ban_bob_event, Send 3 (FModerationBanInfo 2 ''bob'' ''spam'')]"
proof -
  define wb where "wb = (group_send lobby_world 1 ban_bob_event)
    \<lparr>mailbox := (mailbox (group_send lobby_world 1 ban_bob_event))(1 := [])\<rparr>"
  define wc where "wc = (group_send lobby_world 1 ban_bob_event)
    \<lparr>mailbox := (mailbox (group_send lobby_world 1 ban_bob_event))(3 := [])\<rparr>"
  have g: "groups lobby_world 1 = [1, 3]" and m: "mailbox lobby_world = (\<lambda>ch. [])"
    and t: "trace lobby_world = []"
    by (simp_all add: lobby_world_def)
  have tb: "trace wb = [GroupSend 1 ban_bob_event]" and tc: "trace wc = [GroupSend 1 ban_bob_event]"
    by (simp_all add: wb_def wc_def t)
  have db: "deliver (group_send lobby_world 1 ban_bob_event) bob_session
      = dispatch wb bob_session ban_bob_event"
    using deliver_after_group_send [of bob_session lobby_world 1 ban_bob_event]
    by (simp add: g m bob_session_fields wb_def)
  have dc: "deliver (group_send lobby_world 1 ban_bob_event) carol_session
      = dispatch wc carol_session ban_bob_event"
    using deliver_after_group_send [of carol_session lobby_world 1 ban_bob_event]
    by (simp add: g m carol_session_fields wc_def)
  have pb: "user_pk (c_user bob_session) = Some 2" and pc: "user_pk (c_user carol_session) \<noteq> Some 2"
    by (simp_all add: bob_session_fields carol_session_fields sample_ids)
  note th = moderation_delivery [where ev = ban_bob_event and U = 2 and tu = "Some ''bob''"
      and r = "Some ''spam''" and w = lobby_world and g = 1]
  have mb: "mailbox (group_send lobby_world 1 ban_bob_event) ch
      = (if ch \<in> {1, 3} then [ban_bob_event] else [])" for ch
    using th [where self = bob_session and w' = wb] by (simp add: ban_bob_event_def g m)
  have eb: "new_effects wb (dispatch wb bob_session ban_bob_event)
      = [Send 1 (FModerationBanTarget ''spam'' ''You have been banned from the lobby''),
         Close 1 4003]"
    using th [where self = bob_session and w' = wb] pb
    by (simp add: ban_bob_event_def get_or_empty_def bob_session_fields)
  have ec: "new_effects wc (dispatch wc carol_session ban_bob_event)
      = [Send 3 (FModerationBanInfo 2 ''bob'' ''spam'')]"
    using th [where self = carol_session and w' = wc] pc
    by (simp add: ban_bob_event_def get_or_empty_def carol_session_fields)
  have nb: "new_effects lobby_world (dispatch wb bob_session ban_bob_event)
      = [GroupSend 1 ban_bob_event] @ new_effects wb (dispatch wb bob_session ban_bob_event)"
    by (simp add: new_effects_def t tb ban_bob_event_def moderation_ban_def ws_send_def
        ws_close_def)
  have nc: "new_effects lobby_world (dispatch wc carol_session ban_bob_event)
      = [GroupSend 1 ban_bob_event] @ new_effects wc (dispatch wc carol_session ban_bob_event)"
    by (simp add: new_effects_def t tc ban_bob_event_def moderation_ban_def ws_send_def
        ws_close_def)
  show ?thesis
    by (simp add: mb db dc nb nc eb ec)
qed

section \<open>Connecting\<close>

subsection \<open>What each primitive leaves alone\<close>

lemma presence_get_presence_set:
  "presence_get (presence_set w now k v timeout) now' k'
     = (if k' = k then (if now' < now + seconds timeout then v else {}) else presence_get w now' k')"
  by (simp add: presence_get_def presence_set_def)

lemma presence_get_emit [simp]: "presence_get (emit w e) now k = presence_get w now k"
  by (simp add: presence_get_def)

lemma presence_get_frame:
  "presence_cache w' = presence_cache w \<Longrightarrow> presence_get w' now k = presence_get w now k"
  by (simp add: presence_get_def)

lemma group_add_fields [simp]:
  "trace (group_add w g ch) = trace w @ [GroupAdd g ch]"
  "store (group_add w g ch) = store w"
  "presence_cache (group_add w g ch) = presence_cache w"
  "mailbox (group_add w g ch) = mailbox w"
  "ch \<in> set (groups (group_add w g ch) g)"
  by (simp_all add: group_add_def)

lemma group_send_fields [simp]:
  "store (group_send w g ev) = store w"
  "presence_cache (group_send w g ev) = presence_cache w"
  "groups (group_send w g ev) = groups w"
  "rate_cache (group_send w g ev) = rate_cache w"
  by (simp_all add: group_send_def)

lemma ws_fields [simp]:
  "trace (ws_send w self fr) = trace w @ [Send (c_channel_name self) fr]"
  "trace (ws_close w self code) = trace w @ [Close (c_channel_name self) code]"
  "trace (ws_accept w self) = trace w @ [Accept (c_channel_name self)]"
  "trace (send_error w self msg) = trace w @ [Send (c_channel_name self) (FError msg)]"
  by (simp_all add: ws_send_def ws_close_def ws_accept_def send_error_def)

lemma ws_frame [simp]:
  "store (ws_send w self fr) = store w" "store (ws_close w self code) = store w"
  "store (ws_accept w self) = store w" "store (send_error w self msg) = store w"
  "groups (ws_send w self fr) = groups w" "groups (ws_close w self code) = groups w"
  "groups (ws_accept w self) = groups w" "groups (send_error w self msg) = groups w"
  "mailbox (ws_send w self fr) = mailbox w" "mailbox (ws_close w self code) = mailbox w"
  "mailbox (ws_accept w self) = mailbox w" "mailbox (send_error w self msg) = mailbox w"
  "presence_cache (ws_send w self fr) = presence_cache w"
  "presence_cache (ws_close w self code) = presence_cache w"
  "presence_cache (ws_accept w self) = presence_cache w"
  "presence_cache (send_error w self msg) = presence_cache w"
  by (simp_all add: ws_send_def ws_close_def ws_accept_def send_error_def)

lemma presence_set_fields [simp]:
  "trace (presence_set w now k v timeout) = trace w @ [CacheSet (PresenceKey k)]"
  "store (presence_set w now k v timeout) = store w"
  "groups (presence_set w now k v timeout) = groups w"
  "mailbox (presence_set w now k v timeout) = mailbox w"
  by (simp_all add: presence_set_def)

lemma presence_delete_fields [simp]:
  "trace (presence_delete w k) = trace w @ [CacheDelete (PresenceKey k)]"
  "store (presence_delete w k) = store w"
  "groups (presence_delete w k) = groups w"
  "mailbox (presence_delete w k) = mailbox w"
  by (simp_all add: presence_delete_def)

lemma add_user_presence_fields [simp]:
  "trace (add_user_presence w now self) = trace w @ [CacheSet (PresenceKey (c_lobby_id self))]"
  "store (add_user_presence w now self) = store w"
  "groups (add_user_presence w now self) = groups w"
  "mailbox (add_user_presence w now self) = mailbox w"
  by (simp_all add: add_user_presence_def Let_def)

lemma presence_get_add_user_presence:
  "presence_get (add_user_presence w now self) now (c_lobby_id self)
     = insert (user_pk (c_user self)) (presence_get w now (c_lobby_id self))"
  by (simp add: add_user_presence_def Let_def presence_get_presence_set seconds_def)

subsection \<open>A successful join\<close>

text \<open>The outcome of \<open>connect\<close> when every check passes.\<close>

lemma connect_success:
  assumes lb: "find (\<lambda>l. l_id l = lid) (lobbies (store w)) = Some l"
    and cj: "fst (can_join (store w) l u)"
  shows "connect w now ch lid (AuthUser u) =
    (let self = \<lparr>c_channel_name = ch, c_lobby_id = lid, c_lobby_group_name = lid,
                 c_user = AuthUser u, c_lobby = Some l\<rparr>;
         w1 = group_add w lid ch;
         w2 = ws_accept w1 self;
         w3 = add_user_presence w2 now self;
         w4 = group_send w3 lid (PresenceJoin (u_id u) (u_username u) (u_is_premium u));
         w5 = ws_send w4 self (FPresenceList (get_online_users w4 now self))
     in (w5, self))"
proof -
  obtain r where "can_join (store w) l u = (True, r)"
    using cj by (cases "can_join (store w) l u") auto
  then show ?thesis
    using lb by (simp add: connect_def Let_def get_lobby_def can_user_join_def)
qed

text \<open>
  C8. When the lobby exists and \<open>can_join\<close> allows the authenticated user, \<open>connect\<close>
  adds the channel to the group, accepts, writes the presence set, sends \<open>presence_join\<close>
  to the group (its own queue included) and only then sends the \<open>presence_list\<close> frame.
  The list is read from the presence set that already holds the user's id, so the user's
  own row is in it (the user the authentication resolver handed over being a row of the
  user table).
\<close>

theorem connect_snapshot_includes_self:
  assumes lb: "find (\<lambda>l. l_id l = lid) (lobbies (store w)) = Some l"
    and cj: "fst (can_join (store w) l u)"
    and row: "u \<in> set (users (store w))"
  shows "\<exists>w' self online.
     connect w now ch lid (AuthUser u) = (w', self)
     \<and> new_effects w w'
         = [GroupAdd lid ch, Accept ch, CacheSet (PresenceKey lid),
            GroupSend lid (PresenceJoin (u_id u) (u_username u) (u_is_premium u)),
            Send ch (FPresenceList online)]
     \<and> u \<in> set online
     \<and> online = filter (\<lambda>r. Some (u_id r) \<in> presence_get w' now lid) (users (store w))
     \<and> presence_get w' now lid = insert (Some (u_id u)) (presence_get w now lid)
     \<and> ch \<in> set (groups w' lid)
     \<and> mailbox w' ch
         = mailbox w ch @ [PresenceJoin (u_id u) (u_username u) (u_is_premium u)]"
proof -
  define self where "self = \<lparr>c_channel_name = ch, c_lobby_id = lid, c_lobby_group_name = lid,
                 c_user = AuthUser u, c_lobby = Some l\<rparr>"
  define w3 where "w3 = add_user_presence (ws_accept (group_add w lid ch) self) now self"
  define w4 where "w4 = group_send w3 lid (PresenceJoin (u_id u) (u_username u) (u_is_premium u))"
  define online where "online = get_online_users w4 now self"
  define w5 where "w5 = ws_send w4 self (FPresenceList online)"
  have f: "c_channel_name self = ch" "c_lobby_id self = lid" "c_user self = AuthUser u"
    by (simp_all add: self_def)
  have c: "connect w now ch lid (AuthUser u) = (w5, self)"
    using connect_success [OF lb cj, of now ch]
    by (simp add: Let_def self_def w3_def w4_def w5_def online_def)
  have p3: "presence_get w3 now lid = insert (Some (u_id u)) (presence_get w now lid)"
    using presence_get_add_user_presence [of "ws_accept (group_add w lid ch) self" now self]
    by (simp add: w3_def f presence_get_frame [of "ws_accept (group_add w lid ch) self" w])
  have p5: "presence_get w5 now lid = presence_get w3 now lid"
    by (rule presence_get_frame) (simp add: w5_def w4_def)
  have p4: "presence_get w4 now lid = presence_get w3 now lid"
    by (rule presence_get_frame) (simp add: w4_def)
  have s4: "store w4 = store w"
    by (simp add: w4_def w3_def)
  have on: "online = filter (\<lambda>r. Some (u_id r) \<in> presence_get w5 now lid) (users (store w))"
    by (simp add: online_def get_online_users_def Let_def f p4 p5 p3 s4)
  have t: "trace w5 = trace w @ [GroupAdd lid ch, Accept ch, CacheSet (PresenceKey lid),
            GroupSend lid (PresenceJoin (u_id u) (u_username u) (u_is_premium u)),
            Send ch (FPresenceList online)]"
    by (simp add: w5_def w4_def w3_def f)
  have g: "ch \<in> set (groups w5 lid)"
    by (simp add: w5_def w4_def w3_def)
  have m: "mailbox w5 ch = mailbox w ch @ [PresenceJoin (u_id u) (u_username u) (u_is_premium u)]"
    by (simp add: w5_def w4_def w3_def mailbox_group_send)
  have "u \<in> set online"
    using row by (simp add: on p5 p3)
  with c t on g m p5 p3 show ?thesis
    by (intro exI [of _ w5] exI [of _ self] exI [of _ online]) simp
qed

lemma db1_can_join_bob: "fst (can_join db1 lobby1 bob)"
  by (simp add: can_join_def is_full_def current_participants_count_def count_qs_def
      lobby_memberships_def lobby_bans_def exists_qs_def sample_defs)

text \<open>The sample user joining the sample lobby, on channel 1 at time 0.\<close>

theorem connect_snapshot_includes_self_witness:
  "\<exists>w' self. connect (initial_world db1) 0 1 1 (AuthUser bob) = (w', self)
     \<and> new_effects (initial_world db1) w'
         = [GroupAdd 1 1, Accept 1, CacheSet (PresenceKey 1),
            GroupSend 1 (PresenceJoin 2 ''bob'' False), Send 1 (FPresenceList [bob])]
     \<and> presence_get w' 0 1 = {Some 2}
     \<and> 1 \<in> set (groups w' 1)
     \<and> mailbox w' 1 = [PresenceJoin 2 ''bob'' False]"
proof -
  have lb: "find (\<lambda>l. l_id l = 1) (lobbies (store (initial_world db1))) = Some lobby1"
    by (simp add: sample_defs)
  have cj: "fst (can_join (store (initial_world db1)) lobby1 bob)"
    using db1_can_join_bob by simp
  have row: "bob \<in> set (users (store (initial_world db1)))"
    by (simp add: db1_def)
  from connect_snapshot_includes_self [OF lb cj row, of 0 1]
  obtain w' self online where c: "connect (initial_world db1) 0 1 1 (AuthUser bob) = (w', self)"
    and e: "new_effects (initial_world db1) w'
         = [GroupAdd 1 1, Accept 1, CacheSet (PresenceKey 1),
            GroupSend 1 (PresenceJoin (u_id bob) (u_username bob) (u_is_premium bob)),
            Send 1 (FPresenceList online)]"
    and o: "online = filter (\<lambda>r. Some (u_id r) \<in> presence_get w' 0 1)
              (users (store (initial_world db1)))"
    and p: "presence_get w' 0 1
              = insert (Some (u_id bob)) (presence_get (initial_world db1) 0 1)"
    and g: "1 \<in> set (groups w' 1)"
    and m: "mailbox w' 1 = mailbox (initial_world db1) 1
              @ [PresenceJoin (u_id bob) (u_username bob) (u_is_premium bob)]"
    by blast
  have p': "presence_get w' 0 1 = {Some 2}"
    unfolding p by (simp add: presence_get_def sample_ids)
  have "online = [bob]"
    unfolding o p' by (simp add: sample_defs)
  with c e m p' g show ?thesis
    by (simp add: sample_ids)
qed

section \<open>Teardown\<close>

lemma group_discard_fields [simp]:
  "trace (group_discard w g ch) = trace w @ [GroupDiscard g ch]"
  "store (group_discard w g ch) = store w"
  "presence_cache (group_discard w g ch) = presence_cache w"
  "mailbox (group_discard w g ch) = mailbox w"
  "ch \<notin> set (groups (group_discard w g ch) g)"
  by (simp_all add: group_discard_def)

lemma remove_user_presence_trace:
  "trace (remove_user_presence w now self)
     = trace w @ [if presence_get w now (c_lobby_id self) - {user_pk (c_user self)} \<noteq> {}
                  then CacheSet (PresenceKey (c_lobby_id self))
                  else CacheDelete (PresenceKey (c_lobby_id self))]"
  by (simp add: remove_user_presence_def Let_def)

lemma presence_get_remove_user_presence:
  "presence_get (remove_user_presence w now self) now (c_lobby_id self)
     = presence_get w now (c_lobby_id self) - {user_pk (c_user self)}"
  by (simp add: remove_user_presence_def Let_def presence_get_presence_set seconds_def)
    (simp add: presence_get_def presence_delete_def)

lemma connect_user [simp]: "c_user (snd (connect w now ch lid su)) = su"
  by (simp add: connect_def Let_def split: scope_user.splits prod.splits bool.splits)

lemma connect_names [simp]:
  "c_channel_name (snd (connect w now ch lid su)) = ch"
  "c_lobby_id (snd (connect w now ch lid su)) = lid"
  "c_lobby_group_name (snd (connect w now ch lid su)) = lid"
  by (simp_all add: connect_def Let_def split: scope_user.splits prod.splits bool.splits)


lemma presence_get_disconnect:
  "presence_get (disconnect w now self code) now (c_lobby_id self)
     = presence_get w now (c_lobby_id self) - {user_pk (c_user self)}"
proof -
  have "presence_get (disconnect w now self code) now (c_lobby_id self)
      = presence_get (remove_user_presence w now self) now (c_lobby_id self)"
    by (rule presence_get_frame)
      (simp add: disconnect_def Let_def split: scope_user.splits)
  then show ?thesis
    by (simp add: presence_get_remove_user_presence)
qed







lemma presence_after_connect:
  assumes lb: "find (\<lambda>l. l_id l = lid) (lobbies (store w)) = Some l"
    and cj: "fst (can_join (store w) l u)"
  shows "presence_get (fst (connect w now ch lid (AuthUser u))) now' lid
     = (if now' < now + seconds 300 then insert (Some (u_id u)) (presence_get w now lid) else {})"
proof -
  define self where "self = \<lparr>c_channel_name = ch, c_lobby_id = lid, c_lobby_group_name = lid,
                 c_user = AuthUser u, c_lobby = Some l\<rparr>"
  define w2 where "w2 = ws_accept (group_add w lid ch) self"
  define w3 where "w3 = add_user_presence w2 now self"
  have "presence_cache (fst (connect w now ch lid (AuthUser u))) = presence_cache w3"
    by (simp add: connect_success [OF lb cj] Let_def w3_def w2_def self_def)
  then have "presence_get (fst (connect w now ch lid (AuthUser u))) now' lid
      = presence_get w3 now' lid"
    by (rule presence_get_frame)
  also have "\<dots> = (if now' < now + seconds 300
      then insert (Some (u_id u)) (presence_get w2 now lid) else {})"
    by (simp add: w3_def add_user_presence_def Let_def presence_get_presence_set self_def)
  also have "presence_get w2 now lid = presence_get w now lid"
    by (rule presence_get_frame) (simp add: w2_def)
  finally show ?thesis .
qed


section \<open>The sample sessions\<close>

lemma store_connect [simp]: "store (fst (connect w t ch lid su)) = store w"
  by (simp add: connect_def Let_def split: scope_user.splits prod.splits bool.splits)

lemma trace_connect_success:
  assumes lb: "find (\<lambda>l. l_id l = lid) (lobbies (store w)) = Some l"
    and cj: "fst (can_join (store w) l u)"
  shows "\<exists>online. trace (fst (connect w now ch lid (AuthUser u)))
     = trace w @ [GroupAdd lid ch, Accept ch, CacheSet (PresenceKey lid),
                  GroupSend lid (PresenceJoin (u_id u) (u_username u) (u_is_premium u)),
                  Send ch (FPresenceList online)]"
  by (simp add: connect_success [OF lb cj] Let_def)

lemma sample_lobby_found: "find (\<lambda>l. l_id l = 1) (lobbies db1) = Some lobby1"
  by (simp add: sample_defs)

lemma accepted_join_trace:
  "\<exists>online. trace (fst accepted_join)
     = [GroupAdd 1 1, Accept 1, CacheSet (PresenceKey 1),
        GroupSend 1 (PresenceJoin (u_id bob) (u_username bob) (u_is_premium bob)),
        Send 1 (FPresenceList online)]"
  using trace_connect_success [of 1 "initial_world db1" lobby1 bob 0 1]
  by (simp add: accepted_join_def sample_lobby_found db1_can_join_bob)

lemma second_join_trace:
  "\<exists>online. trace (fst second_join)
     = trace (fst accepted_join)
       @ [GroupAdd 1 2, Accept 2, CacheSet (PresenceKey 1),
          GroupSend 1 (PresenceJoin (u_id bob) (u_username bob) (u_is_premium bob)),
          Send 2 (FPresenceList online)]"
  using trace_connect_success [of 1 "fst accepted_join" lobby1 bob 1 2]
  by (simp add: second_join_def accepted_join_def sample_lobby_found db1_can_join_bob)

lemma session_fields:
  "c_user (snd accepted_join) = AuthUser bob" "c_lobby_id (snd accepted_join) = 1"
  "c_user (snd second_join) = AuthUser bob" "c_lobby_id (snd second_join) = 1"
  "c_channel_name (snd accepted_join) = 1" "c_lobby_group_name (snd accepted_join) = 1"
  by (simp_all add: accepted_join_def second_join_def)

lemma accepted_join_presence:
  "presence_get (fst accepted_join) t 1 = (if t < seconds 300 then {Some 2} else {})"
  unfolding accepted_join_def
  using presence_after_connect [of 1 "initial_world db1" lobby1 bob 0 1 t]
  by (simp add: sample_lobby_found db1_can_join_bob sample_ids presence_get_def)


lemma receive_binary: "receive w t self BinaryFrame = Inl TypeError"
  by (simp add: receive_def)

lemma reachable_one_session: "reachable one_session"
proof -
  have n: "new_channel (sys_world (initial_system db1 0)) 1"
    by (simp add: new_channel_def initial_system_def)
  have c: "connect (sys_world (initial_system db1 0)) 0 1 1 (AuthUser bob)
      = (fst accepted_join, snd accepted_join)"
    by (simp add: accepted_join_def initial_system_def)
  have "reachable \<lparr>sys_world = fst accepted_join,
      sessions = (sessions (initial_system db1 0))(1 \<mapsto> snd accepted_join),
      abandoned = abandoned (initial_system db1 0), clock = 0\<rparr>"
    by (rule r_connect [OF r_init _ _ n c]) (simp_all add: initial_system_def)
  then show ?thesis
    by (simp add: one_session_def initial_system_def)
qed


lemma reachable_two_sessions: "reachable two_sessions"
proof -
  have n: "new_channel (sys_world one_session) 2"
    using accepted_join_trace by (auto simp: new_channel_def one_session_def)
  have c: "connect (sys_world one_session) 1 2 1 (AuthUser bob)
      = (fst second_join, snd second_join)"
    by (simp add: second_join_def one_session_def)
  have "reachable \<lparr>sys_world = fst second_join,
      sessions = (sessions one_session)(2 \<mapsto> snd second_join),
      abandoned = abandoned one_session, clock = 1\<rparr>"
    by (rule r_connect [OF reachable_one_session _ _ n c]) (simp_all add: one_session_def)
  then show ?thesis
    by (simp add: two_sessions_def one_session_def)
qed

lemma two_sessions_live:
  "live_session two_sessions 2 1 1" "live_session two_sessions 2 1 2"
  using accepted_join_trace second_join_trace
  by (auto simp: live_session_def two_sessions_def joined_def session_fields sample_ids)

lemma two_sessions_present: "Some 2 \<in> presence_list two_sessions 1"
proof -
  have "presence_get (fst second_join) 1 1
      = insert (Some (u_id bob)) (presence_get (fst accepted_join) 1 1)"
    unfolding second_join_def
    using presence_after_connect [of 1 "fst accepted_join" lobby1 bob 1 2 1]
    by (simp add: accepted_join_def sample_lobby_found db1_can_join_bob seconds_def)
  then show ?thesis
    by (simp add: presence_list_def two_sessions_def sample_ids)
qed

lemma one_left_fields:
  "sys_world one_left = disconnect (fst second_join) 2 (snd accepted_join) 1000"
  "sessions one_left 1 = None" "sessions one_left 2 = Some (snd second_join)"
  "clock one_left = 2"
  by (simp_all add: one_left_def two_sessions_def)

lemma reachable_one_left: "reachable one_left"
  unfolding one_left_def
  by (rule r_disconnect [OF reachable_two_sessions]) (simp_all add: two_sessions_def)

lemma binary_sent_fields:
  "sys_world binary_sent = fst accepted_join" "sessions binary_sent = (\<lambda>ch. None)"
  "abandoned binary_sent = [(1, snd accepted_join)]" "clock binary_sent = 1"
  by (simp_all add: binary_sent_def one_session_def)

lemma one_session_joined: "joined (sys_world one_session) 1"
  using accepted_join_trace by (auto simp: joined_def one_session_def)

lemma reachable_binary_sent: "reachable binary_sent"
  unfolding binary_sent_def
  by (rule r_receive_raises [OF reachable_one_session _ _ one_session_joined receive_binary])
    (simp_all add: one_session_def)

lemma binary_sent_present: "Some 2 \<in> presence_list binary_sent 1"
  by (simp add: presence_list_def binary_sent_fields accepted_join_presence seconds_def)

section \<open>The end of a session\<close>




section \<open>Presence across sessions\<close>

lemma presence_get_subset: "presence_get w now lid \<subseteq> raw_presence w lid"
  by (auto simp: presence_get_def raw_presence_def split: option.splits if_splits)

lemma raw_presence_frame:
  "presence_cache w' = presence_cache w \<Longrightarrow> raw_presence w' lid = raw_presence w lid"
  by (simp add: raw_presence_def)

lemma rate_set_fields [simp]:
  "trace (rate_set w now k v timeout) = trace w @ [CacheSet (RateLimitKey (fst k) (snd k))]"
  "presence_cache (rate_set w now k v timeout) = presence_cache w"
  by (simp_all add: rate_set_def)

lemma connect_outcome:
  "(presence_cache (fst (connect w t ch lid su)) = presence_cache w
      \<or> (\<exists>u. su = AuthUser u \<and> Accept ch \<in> set (trace (fst (connect w t ch lid su)))
           \<and> presence_cache (fst (connect w t ch lid su))
               = (presence_cache w)(lid \<mapsto> (insert (Some (u_id u)) (presence_get w t lid),
                                              t + seconds 300))))
   \<and> set (trace w) \<subseteq> set (trace (fst (connect w t ch lid su)))"
  by (auto simp: connect_def Let_def add_user_presence_def presence_set_def
      presence_get_def split: scope_user.splits prod.splits bool.splits)

lemma disconnect_outcome:
  "raw_presence (disconnect w t self code) lid
     \<subseteq> raw_presence w lid - (if lid = c_lobby_id self then {user_pk (c_user self)} else {})
   \<and> set (trace w) \<subseteq> set (trace (disconnect w t self code))"
proof -
  have "presence_cache (disconnect w t self code) = presence_cache (remove_user_presence w t self)"
    by (simp add: disconnect_def Let_def split: scope_user.splits)
  then have "raw_presence (disconnect w t self code) lid = raw_presence (remove_user_presence w t self) lid"
    by (rule raw_presence_frame)
  moreover have "raw_presence (remove_user_presence w t self) lid
     \<subseteq> raw_presence w lid - (if lid = c_lobby_id self then {user_pk (c_user self)} else {})"
    using presence_get_subset [of w t "c_lobby_id self"]
    by (auto simp: remove_user_presence_def Let_def raw_presence_def presence_set_def
        presence_delete_def)
  moreover have "set (trace w) \<subseteq> set (trace (disconnect w t self code))"
    by (auto simp: disconnect_def Let_def remove_user_presence_trace split: scope_user.splits)
  ultimately show ?thesis by simp
qed

lemma handle_chat_message_outcome:
  "handle_chat_message w t self data = Inr w' \<or> handle_chat_message w t self data = Inl (e, w')
   \<Longrightarrow> presence_cache w' = presence_cache w \<and> set (trace w) \<subseteq> set (trace w')"
  using check_rate_limit_frame(5) [of w t self] check_rate_limit_trace [of w t self]
  by (auto simp: handle_chat_message_def Let_def save_message_def
      split: msg_field.splits prod.splits bool.splits scope_user.splits if_splits option.splits)

lemma receive_outcome:
  assumes "receive w t self fr = Inr w'"
  shows "presence_cache w' = presence_cache w \<and> set (trace w) \<subseteq> set (trace w')"
proof (cases fr)
  case BinaryFrame
  with assms show ?thesis by (simp add: receive_def)
next
  case (TextFrame x)
  show ?thesis
  proof (cases x)
    case (InChatMessage data)
    show ?thesis
    proof (cases "handle_chat_message w t self data")
      case (Inl p)
      obtain e w1 where "p = (e, w1)" by (cases p)
      with Inl handle_chat_message_outcome [of w t self data w1 e] InChatMessage TextFrame assms
      show ?thesis by (auto simp: receive_def)
    next
      case (Inr w1)
      with handle_chat_message_outcome [of w t self data w1] InChatMessage TextFrame assms
      show ?thesis by (auto simp: receive_def)
    qed
  qed (use TextFrame assms in
      \<open>auto simp: receive_def handle_typing_start_def handle_typing_stop_def\<close>)
qed

lemma dispatch_outcome:
  "presence_cache (dispatch w self ev) = presence_cache w
   \<and> set (trace w) \<subseteq> set (trace (dispatch w self ev))"
  by (cases ev) (auto simp: moderation_kick_def moderation_ban_def)

lemma deliver_outcome:
  "presence_cache (deliver w self) = presence_cache w
   \<and> set (trace w) \<subseteq> set (trace (deliver w self))"
proof (cases "mailbox w (c_channel_name self)")
  case Nil
  then show ?thesis by (simp add: deliver_def)
next
  case (Cons ev rest)
  then show ?thesis
    using dispatch_outcome [of "w\<lparr>mailbox := (mailbox w)(c_channel_name self := rest)\<rparr>" self ev]
    by (simp add: deliver_def)
qed

lemma live_session_mono:
  assumes "live_session s uid lid ch" and "sessions s' ch = sessions s ch"
    and "set (trace (sys_world s)) \<subseteq> set (trace (sys_world s'))"
  shows "live_session s' uid lid ch"
  using assms by (auto simp: live_session_def joined_def split: option.splits)

lemma abandoned_session_mono:
  assumes "abandoned_session s uid lid ch" and "set (abandoned s) \<subseteq> set (abandoned s')"
    and "set (trace (sys_world s)) \<subseteq> set (trace (sys_world s'))"
  shows "abandoned_session s' uid lid ch"
  using assms by (auto simp: abandoned_session_def joined_def)

lemma presence_backed_frame:
  assumes b: "presence_backed s" and p: "presence_cache (sys_world s') = presence_cache (sys_world s)"
    and ss: "sessions s' = sessions s" and ab: "abandoned s' = abandoned s"
    and t: "set (trace (sys_world s)) \<subseteq> set (trace (sys_world s'))"
  shows "presence_backed s'"
  unfolding presence_backed_def
proof (intro allI impI)
  fix lid uid
  assume "Some uid \<in> raw_presence (sys_world s') lid"
  then have "Some uid \<in> raw_presence (sys_world s) lid"
    using raw_presence_frame [OF p] by simp
  with b obtain ch where "live_session s uid lid ch \<or> abandoned_session s uid lid ch"
    by (auto simp: presence_backed_def)
  then have "live_session s' uid lid ch \<or> abandoned_session s' uid lid ch"
    using live_session_mono [of s uid lid ch s'] abandoned_session_mono [of s uid lid ch s']
      ss ab t by auto
  then show "\<exists>ch. live_session s' uid lid ch \<or> abandoned_session s' uid lid ch" ..
qed

lemma presence_backed_connect:
  assumes b: "presence_backed s" and n: "sessions s ch = None"
    and c: "connect (sys_world s) t ch lid su = (w', self)"
  shows "presence_backed \<lparr>sys_world = w', sessions = (sessions s)(ch \<mapsto> self),
                           abandoned = abandoned s, clock = t\<rparr>"
    (is "presence_backed ?s'")
  unfolding presence_backed_def
proof (intro allI impI)
  fix lid' uid
  assume m: "Some uid \<in> raw_presence (sys_world ?s') lid'"
  have w': "w' = fst (connect (sys_world s) t ch lid su)" and self: "self = snd (connect (sys_world s) t ch lid su)"
    using c by simp_all
  note o = connect_outcome [of "sys_world s" t ch lid su, folded w']
  have mono: "set (trace (sys_world s)) \<subseteq> set (trace (sys_world ?s'))"
    using o by simp
  have old: "\<exists>ch'. live_session ?s' uid lid' ch' \<or> abandoned_session ?s' uid lid' ch'"
    if "Some uid \<in> raw_presence (sys_world s) lid'"
  proof -
    from b that obtain ch' where "live_session s uid lid' ch' \<or> abandoned_session s uid lid' ch'"
      by (auto simp: presence_backed_def)
    then show ?thesis
    proof
      assume l: "live_session s uid lid' ch'"
      then have "ch' \<noteq> ch" using n by (auto simp: live_session_def)
      then have "sessions ?s' ch' = sessions s ch'" by simp
      from l this mono have "live_session ?s' uid lid' ch'" by (rule live_session_mono)
      then show ?thesis by blast
    next
      assume "abandoned_session s uid lid' ch'"
      then have "abandoned_session ?s' uid lid' ch'"
        by (rule abandoned_session_mono) (use mono in simp_all)
      then show ?thesis by blast
    qed
  qed
  from o have "presence_cache w' = presence_cache (sys_world s)
      \<or> (\<exists>u. su = AuthUser u \<and> Accept ch \<in> set (trace w')
           \<and> presence_cache w' = (presence_cache (sys_world s))
                (lid \<mapsto> (insert (Some (u_id u)) (presence_get (sys_world s) t lid),
                          t + seconds 300)))"
    by simp
  then show "\<exists>ch'. live_session ?s' uid lid' ch' \<or> abandoned_session ?s' uid lid' ch'"
  proof
    assume "presence_cache w' = presence_cache (sys_world s)"
    then have "raw_presence w' lid' = raw_presence (sys_world s) lid'"
      by (rule raw_presence_frame)
    with m old show ?thesis by simp
  next
    assume "\<exists>u. su = AuthUser u \<and> Accept ch \<in> set (trace w')
           \<and> presence_cache w' = (presence_cache (sys_world s))
                (lid \<mapsto> (insert (Some (u_id u)) (presence_get (sys_world s) t lid),
                          t + seconds 300))"
    then obtain u where su: "su = AuthUser u" and a: "Accept ch \<in> set (trace w')"
      and p: "presence_cache w' = (presence_cache (sys_world s))
                (lid \<mapsto> (insert (Some (u_id u)) (presence_get (sys_world s) t lid),
                          t + seconds 300))"
      by blast
    show ?thesis
    proof (cases "lid' = lid \<and> uid = u_id u")
      case True
      have "live_session ?s' uid lid' ch"
        using True a su self by (simp add: live_session_def joined_def)
      then show ?thesis by blast
    next
      case False
      have "Some uid \<in> raw_presence (sys_world s) lid'"
        using m p False presence_get_subset [of "sys_world s" t lid]
        by (auto simp: raw_presence_def split: if_splits)
      then show ?thesis by (rule old)
    qed
  qed
qed

lemma presence_backed_disconnect:
  assumes b: "presence_backed s" and n: "sessions s ch = Some self"
  shows "presence_backed (end_session s t ch self (Disconnected code))"
    (is "presence_backed ?s'")
  unfolding presence_backed_def
proof (intro allI impI)
  fix lid uid
  assume m: "Some uid \<in> raw_presence (sys_world ?s') lid"
  note o = disconnect_outcome [of "sys_world s" t self code lid]
  from m o have r: "Some uid \<in> raw_presence (sys_world s) lid"
    and d: "lid = c_lobby_id self \<longrightarrow> Some uid \<noteq> user_pk (c_user self)"
    by (auto split: if_splits)
  have mono: "set (trace (sys_world s)) \<subseteq> set (trace (sys_world ?s'))"
    using o by simp
  from b r obtain ch' where "live_session s uid lid ch' \<or> abandoned_session s uid lid ch'"
    by (auto simp: presence_backed_def)
  then show "\<exists>ch. live_session ?s' uid lid ch \<or> abandoned_session ?s' uid lid ch"
  proof
    assume l: "live_session s uid lid ch'"
    have "ch' \<noteq> ch"
      using l n d by (auto simp: live_session_def)
    then have "sessions ?s' ch' = sessions s ch'" by simp
    from l this mono have "live_session ?s' uid lid ch'" by (rule live_session_mono)
    then show ?thesis by blast
  next
    assume "abandoned_session s uid lid ch'"
    then have "abandoned_session ?s' uid lid ch'"
      by (rule abandoned_session_mono) (use mono in simp_all)
    then show ?thesis by blast
  qed
qed

lemma presence_backed_raised:
  assumes b: "presence_backed s" and n: "sessions s ch = Some self"
  shows "presence_backed (end_session s t ch self (Raised e))"
    (is "presence_backed ?s'")
  unfolding presence_backed_def
proof (intro allI impI)
  fix lid uid
  assume "Some uid \<in> raw_presence (sys_world ?s') lid"
  then have "Some uid \<in> raw_presence (sys_world s) lid" by simp
  with b obtain ch' where "live_session s uid lid ch' \<or> abandoned_session s uid lid ch'"
    by (auto simp: presence_backed_def)
  then show "\<exists>ch. live_session ?s' uid lid ch \<or> abandoned_session ?s' uid lid ch"
  proof
    assume l: "live_session s uid lid ch'"
    show ?thesis
    proof (cases "ch' = ch")
      case True
      with l n have "abandoned_session ?s' uid lid ch"
        by (auto simp: live_session_def abandoned_session_def)
      then show ?thesis by blast
    next
      case False
      then have "sessions ?s' ch' = sessions s ch'" by simp
      from l this have "live_session ?s' uid lid ch'"
        by (rule live_session_mono) simp
      then show ?thesis by blast
    qed
  next
    assume "abandoned_session s uid lid ch'"
    then have "abandoned_session ?s' uid lid ch'"
      by (rule abandoned_session_mono) auto
    then show ?thesis by blast
  qed
qed

lemma reachable_presence_backed: "reachable s \<Longrightarrow> presence_backed s"
proof (induction rule: reachable.induct)
  case (r_init d t)
  show ?case
    by (simp add: presence_backed_def raw_presence_def initial_system_def)
next
  case (r_connect s t ch lid su w' self)
  then show ?case by (simp add: presence_backed_connect)
next
  case (r_disconnect s t ch self code)
  show ?case
    by (rule presence_backed_disconnect [OF r_disconnect.IH r_disconnect.hyps(3)])
next
  case (r_receive s t ch self fr w')
  show ?case
    by (rule presence_backed_frame [OF r_receive.IH])
      (simp_all add: receive_outcome [OF r_receive.hyps(5)])
next
  case (r_receive_raises s t ch self fr e)
  show ?case
    by (rule presence_backed_raised [OF r_receive_raises.IH r_receive_raises.hyps(3)])
next
  case (r_lost s t ch self e)
  show ?case
    by (rule presence_backed_raised [OF r_lost.IH r_lost.hyps(3)])
next
  case (r_deliver s ch self)
  show ?case
    by (rule presence_backed_frame [OF r_deliver.IH])
      (simp_all add: deliver_outcome)
next
  case (r_store s d b)
  show ?case
    by (rule presence_backed_frame [OF r_store.IH]) simp_all
next
  case (r_group_send s g ev)
  show ?case
    by (rule presence_backed_frame [OF r_group_send.IH]) auto
next
  case (r_tick s t)
  show ?case
    by (rule presence_backed_frame [OF r_tick.IH]) simp_all
qed

text \<open>
  C6, as the code has it. In every reachable state a user id listed in a lobby's presence
  set has a session of that user in that lobby that joined and whose \<open>disconnect\<close> has not
  run: a live one, or one that ended on an exception. Neither direction of the
  equivalence holds. The set holds ids, not connections: the \<open>disconnect\<close> of any session
  takes the id of its user out of the set of its lobby, whatever other sessions that user
  has. And a session that has joined and ends on a binary frame leaves the presence sets
  as they were, its own id included.
\<close>

theorem presence_needs_unfinished_session:
  "(reachable s \<and> Some uid \<in> presence_list s lid \<longrightarrow>
      (\<exists>ch. live_session s uid lid ch \<or> abandoned_session s uid lid ch))
   \<and> (reachable s \<and> sessions s ch = Some self \<and> clock s \<le> t \<longrightarrow>
        reachable (end_session s t ch self (Disconnected code))
        \<and> user_pk (c_user self)
            \<notin> presence_list (end_session s t ch self (Disconnected code)) (c_lobby_id self))
   \<and> (reachable s \<and> sessions s ch = Some self \<and> clock s \<le> t \<and> joined (sys_world s) ch \<longrightarrow>
        receive (sys_world s) t self BinaryFrame = Inl TypeError
        \<and> reachable (end_session s t ch self (Raised TypeError))
        \<and> sessions (end_session s t ch self (Raised TypeError)) ch = None
        \<and> presence_list (end_session s t ch self (Raised TypeError)) lid
            = presence_get (sys_world s) t lid)"
proof (intro conjI impI)
  assume a: "reachable s \<and> Some uid \<in> presence_list s lid"
  then have "presence_backed s" by (simp add: reachable_presence_backed)
  moreover have "Some uid \<in> raw_presence (sys_world s) lid"
    using a presence_get_subset [of "sys_world s" "clock s" lid] by (auto simp: presence_list_def)
  ultimately show "\<exists>ch. live_session s uid lid ch \<or> abandoned_session s uid lid ch"
    by (simp add: presence_backed_def)
next
  assume a: "reachable s \<and> sessions s ch = Some self \<and> clock s \<le> t"
  then show "reachable (end_session s t ch self (Disconnected code))"
    using r_disconnect [of s t ch self code] by blast
  show "user_pk (c_user self)
            \<notin> presence_list (end_session s t ch self (Disconnected code)) (c_lobby_id self)"
    by (simp add: presence_list_def presence_get_disconnect)
next
  assume a: "reachable s \<and> sessions s ch = Some self \<and> clock s \<le> t \<and> joined (sys_world s) ch"
  show "receive (sys_world s) t self BinaryFrame = Inl TypeError"
    by (rule receive_binary)
  from a show "reachable (end_session s t ch self (Raised TypeError))"
    using r_receive_raises [OF _ _ _ _ receive_binary, of s t ch self] by blast
  show "sessions (end_session s t ch self (Raised TypeError)) ch = None"
    by simp
  show "presence_list (end_session s t ch self (Raised TypeError)) lid
            = presence_get (sys_world s) t lid"
    by (simp add: presence_list_def)
qed

lemma one_left_live: "live_session one_left 2 1 2"
proof -
  have "Accept 2 \<in> set (trace (fst second_join))"
    using second_join_trace by auto
  then have "Accept 2 \<in> set (trace (disconnect (fst second_join) 2 (snd accepted_join) 1000))"
    using disconnect_outcome [of "fst second_join" 2 "snd accepted_join" 1000 1] by auto
  then show ?thesis
    by (simp add: live_session_def one_left_fields joined_def session_fields sample_ids)
qed

lemma one_left_absent: "Some 2 \<notin> presence_list one_left 1"
proof -
  have "presence_get (disconnect (fst second_join) 2 (snd accepted_join) 1000) 2
          (c_lobby_id (snd accepted_join))
      = presence_get (fst second_join) 2 (c_lobby_id (snd accepted_join))
          - {user_pk (c_user (snd accepted_join))}"
    by (rule presence_get_disconnect)
  then show ?thesis
    by (simp add: presence_list_def one_left_fields session_fields sample_ids)
qed

text \<open>
  Where C6 fails as worded, in both directions. The sample user holds two live
  connections to the lobby and is listed; the first connection disconnects; the second
  is still live and the user is listed no more. And the sample user with one connection
  sends a binary frame: no session is left, and the user is still listed.
\<close>

theorem presence_iff_live_session_counterexample:
  "reachable two_sessions
   \<and> live_session two_sessions 2 1 1 \<and> live_session two_sessions 2 1 2
   \<and> Some 2 \<in> presence_list two_sessions 1
   \<and> reachable one_left
   \<and> live_session one_left 2 1 2
   \<and> Some 2 \<notin> presence_list one_left 1
   \<and> reachable one_session
   \<and> receive (sys_world one_session) 1 (snd accepted_join) BinaryFrame = Inl TypeError
   \<and> reachable binary_sent
   \<and> Some 2 \<in> presence_list binary_sent 1
   \<and> \<not> (\<exists>ch. live_session binary_sent 2 1 ch)"
proof -
  have "\<not> (\<exists>ch. live_session binary_sent 2 1 ch)"
    by (simp add: live_session_def binary_sent_fields)
  with reachable_one_left one_left_absent reachable_two_sessions two_sessions_live
    two_sessions_present one_left_live reachable_one_session reachable_binary_sent
    binary_sent_present
  show ?thesis by (simp add: receive_binary)
qed

text \<open>
  The invariant at the state with one session and at the state after the binary frame,
  the teardown at the state with two sessions, and the binary frame at the state with one.
\<close>

theorem presence_needs_unfinished_session_witness:
  "reachable one_session \<and> Some 2 \<in> presence_list one_session 1
   \<and> (\<exists>ch. live_session one_session 2 1 ch \<or> abandoned_session one_session 2 1 ch)
   \<and> reachable binary_sent \<and> Some 2 \<in> presence_list binary_sent 1
   \<and> (\<exists>ch. live_session binary_sent 2 1 ch \<or> abandoned_session binary_sent 2 1 ch)
   \<and> reachable one_left \<and> Some 2 \<notin> presence_list one_left 1
   \<and> presence_list binary_sent 1 = presence_get (sys_world one_session) 1 1"
proof -
  have p: "Some 2 \<in> presence_list one_session 1"
    by (simp add: presence_list_def one_session_def accepted_join_presence seconds_def)
  note t1 = presence_needs_unfinished_session [where s = one_session and uid = 2 and lid = 1,
      THEN conjunct1, rule_format, OF conjI [OF reachable_one_session p]]
  note t1b = presence_needs_unfinished_session [where s = binary_sent and uid = 2 and lid = 1,
      THEN conjunct1, rule_format, OF conjI [OF reachable_binary_sent binary_sent_present]]
  have s: "sessions two_sessions 1 = Some (snd accepted_join)" and c: "clock two_sessions \<le> 2"
    by (simp_all add: two_sessions_def)
  note t2 = presence_needs_unfinished_session [where s = two_sessions and ch = 1
      and self = "snd accepted_join" and t = 2 and code = 1000,
      THEN conjunct2, THEN conjunct1, rule_format,
      OF conjI [OF reachable_two_sessions conjI [OF s c]]]
  from t2 have l: "reachable one_left" "Some 2 \<notin> presence_list one_left 1"
    by (simp_all add: one_left_def session_fields sample_ids)
  have s1: "sessions one_session 1 = Some (snd accepted_join)" and c1: "clock one_session \<le> 1"
    by (simp_all add: one_session_def)
  note t3 = presence_needs_unfinished_session [where s = one_session and ch = 1
      and self = "snd accepted_join" and t = 1 and lid = 1,
      THEN conjunct2, THEN conjunct2, rule_format,
      OF conjI [OF reachable_one_session conjI [OF s1 conjI [OF c1 one_session_joined]]]]
  from t3 have b: "reachable binary_sent"
    "presence_list binary_sent 1 = presence_get (sys_world one_session) 1 1"
    by (simp_all add: binary_sent_def)
  from reachable_one_session p t1 t1b l b binary_sent_present show ?thesis by simp
qed

section \<open>Moderation through the REST surface\<close>

lemma events_store_ops [simp]:
  "events (delete_membership d m) = events d"
  "events (save_membership d m) = events d"
  "events (delete_ban d b) = events d"
  "events (save_lobby d l) = events d"
  "events (create_event d ev) = events d @ [ev]"
  by (simp_all add: delete_membership_def save_membership_def delete_ban_def save_lobby_def
      create_event_def)

lemma kick_audit:
  "status_code (fst (kick d ru l data)) = 200 \<Longrightarrow>
   \<exists>ev. events (snd (kick d ru l data)) = events d @ [ev] \<and> audit_row (Kick data) ru l ev"
  by (auto simp: kick_def Let_def audit_row_def split: option.splits prod.splits if_splits)

lemma ban_audit:
  "status_code (fst (ban d ru l data)) = 200 \<Longrightarrow>
   \<exists>ev. events (snd (ban d ru l data)) = events d @ [ev] \<and> audit_row (Ban data) ru l ev"
  by (auto simp: ban_def Let_def audit_row_def split: option.splits prod.splits if_splits)

lemma unban_audit:
  "status_code (fst (unban d ru l data)) = 200 \<Longrightarrow>
   \<exists>ev. events (snd (unban d ru l data)) = events d @ [ev] \<and> audit_row (Unban data) ru l ev"
  by (auto simp: unban_def Let_def audit_row_def split: option.splits prod.splits if_splits)

lemma add_moderator_audit:
  "status_code (fst (add_moderator d ru l data)) = 200 \<Longrightarrow>
   \<exists>ev. events (snd (add_moderator d ru l data)) = events d @ [ev]
      \<and> audit_row (Promote data) ru l ev"
  by (auto simp: add_moderator_def Let_def audit_row_def
      split: option.splits prod.splits if_splits)

lemma remove_moderator_audit:
  "status_code (fst (remove_moderator d ru l data)) = 200 \<Longrightarrow>
   \<exists>ev. events (snd (remove_moderator d ru l data)) = events d @ [ev]
      \<and> audit_row (Demote data) ru l ev"
  by (auto simp: remove_moderator_def Let_def audit_row_def
      split: option.splits prod.splits if_splits)

lemma transfer_ownership_audit:
  "status_code (fst (transfer_ownership d ru l data)) = 200 \<Longrightarrow>
   \<exists>ev. events (snd (transfer_ownership d ru l data)) = events d @ [ev]
      \<and> audit_row (Transfer data) ru l ev"
  by (auto simp: transfer_ownership_def Let_def audit_row_def
      split: option.splits prod.splits if_splits)

lemma start_audit:
  "\<exists>ev. events (snd (start d ru l)) = events d @ [ev] \<and> audit_row Start ru l ev"
  by (simp add: start_def Let_def audit_row_def)

lemma close_audit:
  "\<exists>ev. events (snd (close d ru l)) = events d @ [ev] \<and> audit_row CloseLobby ru l ev"
  by (simp add: close_def Let_def audit_row_def)

lemma moderate_audit:
  "status_code (fst (moderate a ru l d)) = 200 \<Longrightarrow>
   \<exists>ev. events (snd (moderate a ru l d)) = events d @ [ev] \<and> audit_row a ru l ev"
  by (cases a)
    (simp_all add: kick_audit ban_audit unban_audit add_moderator_audit
      remove_moderator_audit transfer_ownership_audit start_audit close_audit)

lemma rest_frame:
  "trace (snd (rest w view)) = trace w" "mailbox (snd (rest w view)) = mailbox w"
  "groups (snd (rest w view)) = groups w" "presence_cache (snd (rest w view)) = presence_cache w"
  "store (snd (rest w view)) = snd (view (store w))" "fst (rest w view) = fst (view (store w))"
  by (simp_all add: rest_def split: prod.splits)

lemma user_id_serializer_Some:
  "user_id_serializer d data = Some uid \<Longrightarrow> d_user_id data = Some uid \<and> user_by_id d uid \<noteq> None"
  by (auto simp: user_id_serializer_def split: option.splits)

lemma reason_serializer_reason:
  "reason_serializer d data = Some (uid, r) \<Longrightarrow> r = d_reason data"
  by (auto simp: reason_serializer_def split: option.splits if_splits)

lemma tables_create_event [simp]:
  "bans (create_event d ev) = bans d" "lobbies (create_event d ev) = lobbies d"
  "users (create_event d ev) = users d"
  by (simp_all add: create_event_def)

lemma delete_membership_tables:
  assumes "get_membership d uid lid = Some m"
  shows "memberships (delete_membership d m)
     = filter (\<lambda>r. \<not> (m_user r = uid \<and> m_lobby r = lid)) (memberships d)"
    "bans (delete_membership d m) = bans d" "lobbies (delete_membership d m) = lobbies d"
  using get_membership_Some [OF assms]
  by (simp_all add: delete_membership_def same_membership_def)

lemma save_membership_tables [simp]:
  "bans (save_membership d m) = bans d" "lobbies (save_membership d m) = lobbies d"
  by (simp_all add: save_membership_def)

lemma Member_save_membership [simp]:
  "Member (save_membership d m) lid uid = Member d lid uid"
proof -
  let ?f = "\<lambda>x. if same_membership m x then m else x"
  have k: "m_lobby (?f x) = m_lobby x \<and> m_user (?f x) = m_user x" for x
    by (simp add: same_membership_def)
  have "memberships (save_membership d m) = map ?f (memberships d)"
    by (simp add: save_membership_def)
  then have "set (memberships (save_membership d m)) = ?f ` set (memberships d)"
    by (simp only: set_map)
  then have "Member (save_membership d m) lid uid
      = (\<exists>x \<in> set (memberships d). m_lobby (?f x) = lid \<and> m_user (?f x) = uid)"
    unfolding Member_def by (simp only: bex_simps image_iff)
  also have "\<dots> = Member d lid uid"
    unfolding Member_def by (simp only: k)
  finally show ?thesis .
qed

lemma has_role_save_membership:
  assumes "Member d (m_lobby m) (m_user m)"
  shows "has_role (save_membership d m) (m_lobby m) (m_user m) (m_role m)"
proof -
  let ?f = "\<lambda>x. if same_membership m x then m else x"
  have "m_role x = m_role m"
    if "x \<in> set (memberships (save_membership d m))"
      "m_lobby x = m_lobby m" "m_user x = m_user m" for x
  proof -
    have "memberships (save_membership d m) = map ?f (memberships d)"
      by (simp add: save_membership_def)
    with that(1) have "x \<in> ?f ` set (memberships d)"
      by (simp only: set_map)
    then obtain y where "x = ?f y" by (rule imageE)
    with that(2,3) show ?thesis
      by (auto simp: same_membership_def split: if_splits)
  qed
  with assms show ?thesis
    unfolding has_role_def by (simp only: Member_save_membership) blast
qed

lemma has_role_save_membership_other:
  assumes "m_lobby m \<noteq> lid \<or> m_user m \<noteq> uid"
  shows "has_role (save_membership d m) lid uid r = has_role d lid uid r"
proof -
  let ?f = "\<lambda>x. if same_membership m x then m else x"
  have "memberships (save_membership d m) = map ?f (memberships d)"
    by (simp add: save_membership_def)
  then have s: "set (memberships (save_membership d m)) = ?f ` set (memberships d)"
    by (simp only: set_map)
  have "(\<forall>x \<in> set (memberships (save_membership d m)).
           m_lobby x = lid \<and> m_user x = uid \<longrightarrow> m_role x = r)
      = (\<forall>y \<in> set (memberships d). m_lobby (?f y) = lid \<and> m_user (?f y) = uid \<longrightarrow> m_role (?f y) = r)"
    unfolding s by blast
  also have "\<dots> = (\<forall>y \<in> set (memberships d). m_lobby y = lid \<and> m_user y = uid \<longrightarrow> m_role y = r)"
    using assms by (intro ball_cong refl) (auto simp: same_membership_def)
  finally show ?thesis
    unfolding has_role_def by (simp only: Member_save_membership)
qed

lemma has_role_create_event [simp]:
  "has_role (create_event d ev) lid uid r = has_role d lid uid r"
  by (simp add: has_role_def)

lemma get_membership_Member: "get_membership d uid lid = Some m \<Longrightarrow> Member d lid uid"
  using get_membership_Some [of d uid lid m] unfolding Member_def by blast

lemma kick_change:
  assumes "status_code (fst (kick d ru l data)) = 200"
  shows "store_change (Kick data) ru l d (snd (kick d ru l data))"
proof -
  from assms obtain uid r u m where v: "reason_serializer d data = Some (uid, r)"
    and u: "user_by_id d uid = Some u" and m: "get_membership d (u_id u) (l_id l) = Some m"
    and o: "m_role m \<noteq> ''owner''"
    by (auto simp: kick_def Let_def split: option.splits prod.splits if_splits)
  have i: "u_id u = uid" using u by (rule user_by_id_Some)
  have k: "d_user_id data = Some uid" using v reason_serializer_Some by blast
  from v u m o i k show ?thesis
    using delete_membership_tables [OF m] get_membership_Member [OF m]
    by (simp add: kick_def Let_def)
qed

lemma ban_change:
  assumes "status_code (fst (ban d ru l data)) = 200"
  shows "store_change (Ban data) ru l d (snd (ban d ru l data))"
proof -
  from ban_success_valid [OF assms] obtain uid r u
    where v: "reason_serializer d data = Some (uid, r)" and u: "user_by_id d uid = Some u"
      and o: "l_owner l \<noteq> uid"
    by blast
  have k: "d_user_id data = Some uid" using v reason_serializer_Some by blast
  have r: "r = d_reason data" using v by (rule reason_serializer_reason)
  note b = ban_valid [OF v u o, of ru]
  have nb: "\<not> Banned d (l_id l) uid"
    using assms unfolding b by (auto simp: Let_def split: if_splits)
  then show ?thesis
    unfolding b using k r by (simp add: Let_def)
qed

lemma unban_change:
  assumes "status_code (fst (unban d ru l data)) = 200"
  shows "store_change (Unban data) ru l d (snd (unban d ru l data))"
proof -
  from assms obtain uid u b where v: "user_id_serializer d data = Some uid"
    and u: "user_by_id d uid = Some u" and b: "get_ban d (l_id l) (u_id u) = Some b"
    by (auto simp: unban_def Let_def split: option.splits prod.splits if_splits)
  have i: "u_id u = uid" using u by (rule user_by_id_Some)
  have k: "d_user_id data = Some uid" using v user_id_serializer_Some by blast
  have bb: "b_lobby b = l_id l \<and> b_user b = uid"
    using b i by (auto simp: get_ban_def find_Some_iff)
  have "Banned d (l_id l) uid"
    using b i get_ban_None_iff [of d "l_id l" uid] by auto
  with v u b i k bb show ?thesis
    by (simp add: unban_def Let_def delete_ban_def same_ban_def)
qed


lemma add_moderator_change:
  assumes "status_code (fst (add_moderator d ru l data)) = 200"
  shows "store_change (Promote data) ru l d (snd (add_moderator d ru l data))"
proof -
  from assms obtain uid u m where v: "user_id_serializer d data = Some uid"
    and u: "user_by_id d uid = Some u" and m: "get_membership d (u_id u) (l_id l) = Some m"
    and o: "m_role m \<noteq> ''owner''"
    by (auto simp: add_moderator_def Let_def split: option.splits prod.splits if_splits)
  have i: "u_id u = uid" using u by (rule user_by_id_Some)
  have k: "d_user_id data = Some uid" using v user_id_serializer_Some by blast
  have ms: "m_user m = uid" "m_lobby m = l_id l" and mb: "Member d (l_id l) uid"
    using get_membership_Some [OF m] get_membership_Member [OF m] i by simp_all
  have "has_role (save_membership d (m\<lparr>m_role := ''moderator''\<rparr>)) (l_id l) uid ''moderator''"
    using has_role_save_membership [of d "m\<lparr>m_role := ''moderator''\<rparr>"] ms mb by simp
  with v u m o i k mb show ?thesis
    by (simp add: add_moderator_def Let_def)
qed

lemma remove_moderator_change:
  assumes "status_code (fst (remove_moderator d ru l data)) = 200"
  shows "store_change (Demote data) ru l d (snd (remove_moderator d ru l data))"
proof -
  from assms obtain uid u m where v: "user_id_serializer d data = Some uid"
    and u: "user_by_id d uid = Some u" and m: "get_membership d (u_id u) (l_id l) = Some m"
    and o: "m_role m = ''moderator''"
    by (auto simp: remove_moderator_def Let_def split: option.splits prod.splits if_splits)
  have i: "u_id u = uid" using u by (rule user_by_id_Some)
  have k: "d_user_id data = Some uid" using v user_id_serializer_Some by blast
  have ms: "m_user m = uid" "m_lobby m = l_id l" and mb: "Member d (l_id l) uid"
    using get_membership_Some [OF m] get_membership_Member [OF m] i by simp_all
  have "has_role (save_membership d (m\<lparr>m_role := ''member''\<rparr>)) (l_id l) uid ''member''"
    using has_role_save_membership [of d "m\<lparr>m_role := ''member''\<rparr>"] ms mb by simp
  with v u m o i k mb show ?thesis
    by (simp add: remove_moderator_def Let_def)
qed

lemma save_lobby_tables [simp]:
  "memberships (save_lobby d l) = memberships d" "bans (save_lobby d l) = bans d"
  "lobbies (save_lobby d l) = map (\<lambda>r. if l_id r = l_id l then l else r) (lobbies d)"
  "Member (save_lobby d l) lid uid = Member d lid uid"
  by (simp_all add: save_lobby_def Member_def)

lemma transfer_ownership_change:
  assumes "status_code (fst (transfer_ownership d ru l data)) = 200"
  shows "store_change (Transfer data) ru l d (snd (transfer_ownership d ru l data))"
proof -
  define d1 where "d1 = save_lobby d (l\<lparr>l_owner := the (d_user_id data)\<rparr>)"
  from assms obtain uid u m where v: "user_id_serializer d data = Some uid"
    and u: "user_by_id d uid = Some u" and m: "get_membership d (u_id u) (l_id l) = Some m"
    by (auto simp: transfer_ownership_def Let_def split: option.splits prod.splits if_splits)
  have i: "u_id u = uid" using u by (rule user_by_id_Some)
  have k: "d_user_id data = Some uid" using v user_id_serializer_Some by blast
  have d1: "save_lobby d (l\<lparr>l_owner := u_id u\<rparr>) = d1"
    by (simp add: d1_def i k)
  from assms v u m obtain om where om: "get_membership d1 (l_owner l) (l_id l) = Some om"
    by (auto simp: transfer_ownership_def Let_def d1 split: option.splits)
  define d2 where "d2 = save_membership d1 (om\<lparr>m_role := ''member''\<rparr>)"
  define d3 where "d3 = save_membership d2 (m\<lparr>m_role := ''owner''\<rparr>)"
  have ms: "m_user m = uid" "m_lobby m = l_id l" and mb: "Member d (l_id l) uid"
    using get_membership_Some [OF m] get_membership_Member [OF m] i by simp_all
  have os: "m_user om = l_owner l" "m_lobby om = l_id l" and ob: "Member d1 (l_id l) (l_owner l)"
    using get_membership_Some [OF om] get_membership_Member [OF om] by simp_all
  have "Member d2 (l_id l) uid"
    using mb by (simp add: d2_def d1_def)
  then have r3: "has_role d3 (l_id l) uid ''owner''"
    using has_role_save_membership [of d2 "m\<lparr>m_role := ''owner''\<rparr>"] ms by (simp add: d3_def)
  have r2: "has_role d2 (l_id l) (l_owner l) ''member''"
    using has_role_save_membership [of d1 "om\<lparr>m_role := ''member''\<rparr>"] os ob by (simp add: d2_def)
  have ro: "has_role d3 (l_id l) (l_owner l) ''member''" if "l_owner l \<noteq> uid"
    unfolding d3_def using that ms r2
    by (subst has_role_save_membership_other) simp_all
  have lb: "lobbies d3 = map (\<lambda>r. if l_id r = l_id l then l\<lparr>l_owner := uid\<rparr> else r) (lobbies d)"
    by (simp add: d3_def d2_def d1_def k)
  have bn: "bans d3 = bans d"
    by (simp add: d3_def d2_def d1_def)
  have "snd (transfer_ownership d ru l data)
      = create_event d3 \<lparr>e_lobby = l_id l, e_event_type = ''transfer'',
           e_actor = Some (u_id ru), e_target = Some (u_id u),
           e_description = ''Ownership transferred to '' @ u_username u, e_metadata = []\<rparr>"
    using v u m om by (simp add: transfer_ownership_def Let_def d1 d2_def d3_def)
  then show ?thesis
    using k mb r3 ro lb bn by simp
qed

lemma start_change: "store_change Start ru l d (snd (start d ru l))"
  by (simp add: start_def Let_def)

lemma close_change: "store_change CloseLobby ru l d (snd (close d ru l))"
  by (simp add: close_def Let_def)

lemma moderate_change:
  "status_code (fst (moderate a ru l d)) = 200 \<Longrightarrow>
   store_change a ru l d (snd (moderate a ru l d))"
  by (cases a)
    (simp_all only: moderate.simps kick_change ban_change unban_change add_moderator_change
      remove_moderator_change transfer_ownership_change start_change close_change)

text \<open>
  C3, as the code has it. A moderation action of the REST surface (kick, ban, unban,
  promote, demote, transfer, start, close) changes the durable store and nothing else:
  it sends no event to any group, queues nothing for any channel and leaves the groups
  as they are. A successful action has changed the tables as its kind says (kick: the
  target's membership rows are gone; ban: they are gone and one ban row of the target is
  added; unban: the target's ban rows are gone; promote, demote: the target has the role
  moderator, member; transfer: the lobby row has the target as owner, the target has the
  role owner and the old owner the role member; start, close: the lobby row has the
  status \<open>in_game\<close>, \<open>closed\<close>) and has added the audit row of its type.
\<close>

theorem moderation_is_not_broadcast:
  "snd (rest w (moderate a ru l)) = w\<lparr>store := snd (moderate a ru l (store w))\<rparr>
   \<and> trace (snd (rest w (moderate a ru l))) = trace w
   \<and> mailbox (snd (rest w (moderate a ru l))) = mailbox w
   \<and> groups (snd (rest w (moderate a ru l))) = groups w
   \<and> (status_code (fst (rest w (moderate a ru l))) = 200 \<longrightarrow>
        store_change a ru l (store w) (store (snd (rest w (moderate a ru l))))
        \<and> (\<exists>ev. events (store (snd (rest w (moderate a ru l)))) = events (store w) @ [ev]
             \<and> audit_row a ru l ev))"
proof -
  have "snd (rest w (moderate a ru l)) = w\<lparr>store := snd (moderate a ru l (store w))\<rparr>"
    by (simp add: rest_def split: prod.splits)
  then show ?thesis
    using moderate_audit [of a ru l "store w"] moderate_change [of a ru l "store w"]
    by (simp add: rest_frame)
qed

lemma ban_bob_succeeds: "status_code (fst (ban db2 alice lobby1 ban_bob)) = 200"
  by (simp add: ban_def reason_serializer_def user_by_id_def get_ban_def Let_def
      sample_defs ban_bob_def)

lemma lobby_world_fields:
  "store lobby_world = db2" "trace lobby_world = []" "mailbox lobby_world = (\<lambda>ch. [])"
  "groups lobby_world 1 = [1, 3]"
  by (simp_all add: lobby_world_def)

text \<open>
  Where C3 fails as worded: with the sessions of the sample member and of another user in
  the group, the owner's REST ban of the member succeeds and the member is banned, yet no
  \<open>moderation_ban\<close> (nor anything else) is sent to the group; the member's session has
  nothing queued, and its next delivery step changes nothing.
\<close>

theorem rest_ban_not_broadcast_counterexample:
  "status_code (fst (rest lobby_world (moderate (Ban ban_bob) alice lobby1))) = 200
   \<and> Banned (store (snd (rest lobby_world (moderate (Ban ban_bob) alice lobby1)))) 1 2
   \<and> groups (snd (rest lobby_world (moderate (Ban ban_bob) alice lobby1))) 1 = [1, 3]
   \<and> trace (snd (rest lobby_world (moderate (Ban ban_bob) alice lobby1))) = []
   \<and> mailbox (snd (rest lobby_world (moderate (Ban ban_bob) alice lobby1))) 1 = []
   \<and> deliver (snd (rest lobby_world (moderate (Ban ban_bob) alice lobby1))) bob_session
       = snd (rest lobby_world (moderate (Ban ban_bob) alice lobby1))"
proof -
  have b: "Banned (snd (ban db2 alice lobby1 ban_bob)) 1 2"
    by (simp add: ban_def reason_serializer_def user_by_id_def get_ban_def Let_def
        sample_defs ban_bob_def Banned_def create_event_def)
  show ?thesis
    by (simp add: rest_frame lobby_world_fields ban_bob_succeeds b deliver_def
        bob_session_fields)
qed

text \<open>
  The owner's ban of the sample member: the member's row is gone, the ban row is there,
  one audit row of type \<open>ban\<close> is added, and nothing is sent.
\<close>

theorem moderation_is_not_broadcast_witness:
  "trace (snd (rest lobby_world (moderate (Ban ban_bob) alice lobby1))) = []
   \<and> memberships (store (snd (rest lobby_world (moderate (Ban ban_bob) alice lobby1))))
       = [owner_row]
   \<and> bans (store (snd (rest lobby_world (moderate (Ban ban_bob) alice lobby1))))
       = [\<lparr>b_lobby = 1, b_user = 2, b_reason = ''spam'', b_banned_by = Some 1\<rparr>]
   \<and> (\<exists>ev. events (store (snd (rest lobby_world (moderate (Ban ban_bob) alice lobby1)))) = [ev]
         \<and> e_event_type ev = ''ban'' \<and> e_lobby ev = 1 \<and> e_actor ev = Some 1)"
proof -
  have s: "status_code (fst (rest lobby_world (moderate (Ban ban_bob) alice lobby1))) = 200"
    by (simp add: rest_frame lobby_world_fields ban_bob_succeeds)
  have e: "events db2 = []" "bans db2 = []" "memberships db2 = [owner_row, bob_row]"
    by (simp_all add: sample_defs)
  have r: "m_user owner_row = 1" "m_user bob_row = 2" "m_lobby bob_row = 1"
    "d_user_id ban_bob = Some 2" "d_reason ban_bob = Some ''spam''"
    by (simp_all add: owner_row_def bob_row_def ban_bob_def)
  from moderation_is_not_broadcast [where w = lobby_world and a = "Ban ban_bob" and ru = alice
      and l = lobby1, THEN conjunct2] s
  show ?thesis
    by (simp add: lobby_world_fields e r audit_row_def sample_ids)
qed

end
